theory Spec2Isabelle
  imports Main "HOL-Library.Sublist"
begin

section \<open>Python values used by super-dl\<close>

text \<open>
  Python strings are modelled as \<^typ>\<open>string\<close>: a list of characters with code points
  0..255 (the Latin-1 range of \<open>str\<close>).  Exceptions are values: a function that can raise
  returns \<open>py_exception + 'a\<close>, with \<open>Inl\<close> for the raised exception.
\<close>

datatype py_exception =
    ValueError
  | RuntimeError
  | RequestError
  | OSError
  | ImportError

subsection \<open>String methods\<close>

definition ascii_upper :: "char \<Rightarrow> bool" where
  "ascii_upper c = (c \<in> set ''ABCDEFGHIJKLMNOPQRSTUVWXYZ'')"

definition ascii_lower :: "char \<Rightarrow> bool" where
  "ascii_lower c = (c \<in> set ''abcdefghijklmnopqrstuvwxyz'')"

definition ascii_digit :: "char \<Rightarrow> bool" where
  "ascii_digit c = (c \<in> set ''0123456789'')"

text \<open>\<open>str.lower()\<close> on one character of the Latin-1 range: \<open>A-Z\<close> and the accented
  capitals U+00C0..U+00DE (without the multiplication sign U+00D7) move up by 32.\<close>

definition lower_char :: "char \<Rightarrow> char" where
  "lower_char c =
     (let n = (of_char c :: nat)
      in if (65 \<le> n \<and> n \<le> 90) \<or> (192 \<le> n \<and> n \<le> 222 \<and> n \<noteq> 215)
         then char_of (n + 32) else c)"

definition lower :: "string \<Rightarrow> string" where
  "lower s = map lower_char s"

definition startswith :: "string \<Rightarrow> string \<Rightarrow> bool" where
  "startswith s p = (take (length p) s = p)"

definition endswith :: "string \<Rightarrow> string \<Rightarrow> bool" where
  "endswith s p = (length p \<le> length s \<and> drop (length s - length p) s = p)"

text \<open>\<open>p in s\<close> for strings: \<open>p\<close> occurs in \<open>s\<close> as a contiguous run.\<close>

fun contains :: "string \<Rightarrow> string \<Rightarrow> bool" where
  "contains [] p = (p = [])"
| "contains (c # cs) p = (startswith (c # cs) p \<or> contains cs p)"

text \<open>\<open>s.split(c)\<close> for a one-character separator: never the empty list.\<close>

fun split :: "char \<Rightarrow> string \<Rightarrow> string list" where
  "split c [] = [[]]"
| "split c (x # xs) =
     (if x = c then [] # split c xs
      else (case split c xs of [] \<Rightarrow> [[x]] | y # ys \<Rightarrow> (x # y) # ys))"

definition rstrip :: "char \<Rightarrow> string \<Rightarrow> string" where
  "rstrip c s = rev (dropWhile (\<lambda>x. x = c) (rev s))"

definition lstrip :: "char \<Rightarrow> string \<Rightarrow> string" where
  "lstrip c s = dropWhile (\<lambda>x. x = c) s"

definition strip :: "char \<Rightarrow> string \<Rightarrow> string" where
  "strip c s = rstrip c (lstrip c s)"

text \<open>The part of \<open>s\<close> before the first \<open>c\<close>, and the part after it
  (\<open>s.split(c, 1)\<close> when \<open>c\<close> occurs in \<open>s\<close>).\<close>

definition before_first :: "char \<Rightarrow> string \<Rightarrow> string" where
  "before_first c s = takeWhile (\<lambda>x. x \<noteq> c) s"

definition after_first :: "char \<Rightarrow> string \<Rightarrow> string" where
  "after_first c s = drop 1 (dropWhile (\<lambda>x. x \<noteq> c) s)"

text \<open>\<open>[p for p in xs if p]\<close>\<close>

definition nonempty_parts :: "string list \<Rightarrow> string list" where
  "nonempty_parts xs = filter (\<lambda>p. p \<noteq> []) xs"

text \<open>\<open>parts[-1] if parts else d\<close>\<close>

definition last_or :: "string \<Rightarrow> string list \<Rightarrow> string" where
  "last_or d parts = (if parts = [] then d else last parts)"

subsection \<open>\<open>urllib.parse.urlparse\<close>\<close>

text \<open>
  The standard library's \<open>urlparse\<close> (CPython 3.12), for \<open>str\<close> arguments and the default
  \<open>scheme=''\<close>, \<open>allow_fragments=True\<close>.  The validation of a bracketed host
  (\<open>_check_bracketed_netloc\<close>, which calls the \<open>ipaddress\<close> module) is the parameter
  \<open>ipok\<close>: it says whether a netloc holding both brackets is accepted.  The NFKC check
  \<open>_checknetloc\<close> never raises on the Latin-1 range: no character of it normalises to
  one of \<open>/?#@:\<close>.
\<close>

record parse_result =
  scheme :: string
  netloc :: string
  path :: string
  params :: string
  query :: string
  fragment :: string

definition c0_control_or_space :: "char \<Rightarrow> bool" where
  "c0_control_or_space c = ((of_char c :: nat) \<le> 32)"

definition unsafe_url_byte :: "char \<Rightarrow> bool" where
  "unsafe_url_byte c = (c = CHR 0x09 \<or> c = CHR 0x0D \<or> c = CHR 0x0A)"

definition scheme_char :: "char \<Rightarrow> bool" where
  "scheme_char c = (ascii_lower c \<or> ascii_upper c \<or> ascii_digit c \<or> c \<in> set ''+-.'')"

definition uses_params :: "string list" where
  "uses_params = ['''', ''ftp'', ''hdl'', ''prospero'', ''http'', ''imap'', ''https'',
     ''shttp'', ''rtsp'', ''rtspu'', ''sip'', ''sips'', ''mms'', ''sftp'', ''tel'']"

text \<open>The scheme split of \<open>urlsplit\<close>: \<open>i = url.find(':')\<close>, and the scheme is taken when
  \<open>i > 0\<close>, the first character is an ASCII letter and \<open>url[:i]\<close> has scheme characters only.\<close>

definition split_scheme :: "string \<Rightarrow> string \<times> string" where
  "split_scheme url =
     (let pre = before_first CHR '':'' url
      in if CHR '':'' \<in> set url \<and> pre \<noteq> []
            \<and> (ascii_lower (hd pre) \<or> ascii_upper (hd pre))
            \<and> list_all scheme_char pre
         then (lower pre, after_first CHR '':'' url)
         else ([], url))"

definition netloc_delim :: "char \<Rightarrow> bool" where
  "netloc_delim c = (c \<in> set ''/?#'')"

text \<open>\<open>_splitnetloc(url, 2)\<close>\<close>

definition splitnetloc :: "string \<Rightarrow> string \<times> string" where
  "splitnetloc url =
     (takeWhile (\<lambda>c. \<not> netloc_delim c) (drop 2 url),
      dropWhile (\<lambda>c. \<not> netloc_delim c) (drop 2 url))"

definition urlsplit :: "(string \<Rightarrow> bool) \<Rightarrow> string \<Rightarrow> py_exception + parse_result" where
  "urlsplit ipok url0 =
     (let url1 = dropWhile c0_control_or_space url0;
          url2 = filter (\<lambda>c. \<not> unsafe_url_byte c) url1;
          (sch, url3) = split_scheme url2;
          (nl, url4) = (if take 2 url3 = ''//'' then splitnetloc url3 else ([], url3));
          has_open = (CHR ''['' \<in> set nl);
          has_close = (CHR '']'' \<in> set nl)
      in if (has_open \<and> \<not> has_close) \<or> (has_close \<and> \<not> has_open) then Inl ValueError
         else if has_open \<and> has_close \<and> \<not> ipok nl then Inl ValueError
         else
           (let (url5, frag) =
                  (if CHR ''#'' \<in> set url4
                   then (before_first CHR ''#'' url4, after_first CHR ''#'' url4)
                   else (url4, []));
                (url6, qry) =
                  (if CHR ''?'' \<in> set url5
                   then (before_first CHR ''?'' url5, after_first CHR ''?'' url5)
                   else (url5, []))
            in Inr \<lparr> scheme = sch, netloc = nl, path = url6, params = [],
                     query = qry, fragment = frag \<rparr>))"

text \<open>\<open>_splitparams\<close>: the parameters start at the first \<open>;\<close> of the last path segment.\<close>

definition splitparams :: "string \<Rightarrow> string \<times> string" where
  "splitparams url =
     (if CHR ''/'' \<in> set url
      then (let seg = last (split CHR ''/'' url);
                front = take (length url - length seg) url
            in if CHR '';'' \<in> set seg
               then (front @ before_first CHR '';'' seg, after_first CHR '';'' seg)
               else (url, []))
      else (before_first CHR '';'' url, after_first CHR '';'' url))"

definition urlparse :: "(string \<Rightarrow> bool) \<Rightarrow> string \<Rightarrow> py_exception + parse_result" where
  "urlparse ipok url =
     (case urlsplit ipok url of
        Inl e \<Rightarrow> Inl e
      | Inr r \<Rightarrow>
          if scheme r \<in> set uses_params \<and> CHR '';'' \<in> set (path r)
          then (let (p, ps) = splitparams (path r) in Inr (r\<lparr> path := p, params := ps \<rparr>))
          else Inr r)"

subsection \<open>\<open>pathlib\<close> and \<open>os.path\<close>\<close>

text \<open>\<open>PurePosixPath(s).name\<close>: the last of the components of \<open>s\<close> that are neither
  empty nor \<open>.\<close>, or the empty string when there is none.\<close>

definition path_parts :: "string \<Rightarrow> string list" where
  "path_parts s = filter (\<lambda>p. p \<noteq> [] \<and> p \<noteq> ''.'') (split CHR ''/'' s)"

definition path_name :: "string \<Rightarrow> string" where
  "path_name s = last_or [] (path_parts s)"

text \<open>\<open>os.path.basename(p)\<close>: what follows the last slash.\<close>

definition basename :: "string \<Rightarrow> string" where
  "basename p = last (split CHR ''/'' p)"

section \<open>Filename derivation\<close>

text \<open>\<open>re.sub(r"[^A-Za-z0-9._-]", "-", name)\<close>\<close>

definition safe_char :: "char \<Rightarrow> bool" where
  "safe_char c = (ascii_upper c \<or> ascii_lower c \<or> ascii_digit c \<or> c \<in> set ''._-'')"

definition sanitize :: "string \<Rightarrow> string" where
  "sanitize name = map (\<lambda>c. if safe_char c then c else CHR ''-'') name"

text \<open>\<open>eroleaked.derive_filename_from_url\<close>; \<open>amateurdoporn.derive_filename_from_url\<close>
  has the same body.\<close>

definition eroleaked_derive_filename_from_url :: "string \<Rightarrow> string" where
  "eroleaked_derive_filename_from_url url =
     (let path = rstrip CHR ''/'' url;
          name = path_name path;
          name = (if name = []
                  then last_or ''video'' (nonempty_parts (split CHR ''/'' path))
                  else name)
      in sanitize name)"

definition amateurdoporn_derive_filename_from_url :: "string \<Rightarrow> string" where
  "amateurdoporn_derive_filename_from_url url =
     (let path = rstrip CHR ''/'' url;
          name = path_name path;
          name = (if name = []
                  then last_or ''video'' (nonempty_parts (split CHR ''/'' path))
                  else name)
      in sanitize name)"

text \<open>\<open>cumslutx.derive_filename_from_url\<close>; \<open>simpthots.derive_filename_from_url\<close> has
  the same body.\<close>

definition cumslutx_derive_filename_from_url ::
  "(string \<Rightarrow> bool) \<Rightarrow> string \<Rightarrow> py_exception + string" where
  "cumslutx_derive_filename_from_url ipok url =
     (case urlparse ipok url of
        Inl e \<Rightarrow> Inl e
      | Inr parsed \<Rightarrow>
          (let parts = nonempty_parts (split CHR ''/'' (path parsed));
               name = last_or ''video'' parts;
               name = sanitize name
           in Inr (if \<not> endswith (lower name) ''.mp4'' then name @ ''.mp4'' else name)))"

definition simpthots_derive_filename_from_url ::
  "(string \<Rightarrow> bool) \<Rightarrow> string \<Rightarrow> py_exception + string" where
  "simpthots_derive_filename_from_url ipok url =
     (case urlparse ipok url of
        Inl e \<Rightarrow> Inl e
      | Inr parsed \<Rightarrow>
          (let parts = nonempty_parts (split CHR ''/'' (path parsed));
               name = last_or ''video'' parts;
               name = sanitize name
           in Inr (if \<not> endswith (lower name) ''.mp4'' then name @ ''.mp4'' else name)))"

text \<open>\<open>thothub._filename_from_url\<close>; \<open>thotfans._filename_from_url\<close> has the same body.\<close>

definition thothub_filename_from_url ::
  "(string \<Rightarrow> bool) \<Rightarrow> string \<Rightarrow> py_exception + string" where
  "thothub_filename_from_url ipok url =
     (case urlparse ipok url of
        Inl e \<Rightarrow> Inl e
      | Inr parsed \<Rightarrow> Inr (basename (rstrip CHR ''/'' (path parsed))))"

definition thotfans_filename_from_url ::
  "(string \<Rightarrow> bool) \<Rightarrow> string \<Rightarrow> py_exception + string" where
  "thotfans_filename_from_url ipok url =
     (case urlparse ipok url of
        Inl e \<Rightarrow> Inl e
      | Inr parsed \<Rightarrow> Inr (basename (rstrip CHR ''/'' (path parsed))))"

text \<open>\<open>fapnut._filename_from_page_url\<close>\<close>

definition fapnut_filename_from_page_url ::
  "(string \<Rightarrow> bool) \<Rightarrow> string \<Rightarrow> py_exception + string" where
  "fapnut_filename_from_page_url ipok page_url =
     (case urlparse ipok page_url of
        Inl e \<Rightarrow> Inl e
      | Inr parsed \<Rightarrow>
          (let path = strip CHR ''/'' (path parsed)
           in if path = [] then Inr ''fapnut.mp4''
              else (let name = last (split CHR ''/'' path);
                        name = (if name = [] then ''fapnut'' else name)
                    in Inr (name @ ''.mp4''))))"

section \<open>Site registry and URL classifier (\<open>main.py\<close>)\<close>

text \<open>\<open>_site_registry()\<close>: a dict in insertion order, as the list of its items
  \<open>(key, module path, hosts)\<close>.\<close>

definition site_registry :: "(string \<times> string \<times> string list) list" where
  "site_registry =
     [(''influencersgonewild'', ''super_dl.sites.influencersgonewild'', [''influencersgonewild.com'']),
      (''eroleaked'', ''super_dl.sites.eroleaked'', [''eroleaked.com'']),
      (''amateurdoporn'', ''super_dl.sites.amateurdoporn'', [''amateurdoporn.com'']),
      (''cumslutx'', ''super_dl.sites.cumslutx'', [''cumslutx.com'', ''girlxnude.com'', ''fapplay.com'']),
      (''simpthots'', ''super_dl.sites.simpthots'', [''simpthots.com'']),
      (''thothub'', ''super_dl.sites.thothub'', [''thothub.to'', ''thothub.org'']),
      (''thotfans'', ''super_dl.sites.thotfans'', [''thotfans.com''])]"

text \<open>The inner loop \<open>for host in hosts: if host and host in netloc\<close>.\<close>

fun hosts_match :: "string list \<Rightarrow> string \<Rightarrow> bool" where
  "hosts_match [] nl = False"
| "hosts_match (host # hosts) nl =
     (if host \<noteq> [] \<and> contains nl host then True else hosts_match hosts nl)"

text \<open>The outer loop \<open>for key, info in registry.items()\<close>, returning the first key.\<close>

fun scan_registry :: "(string \<times> string \<times> string list) list \<Rightarrow> string \<Rightarrow> string option" where
  "scan_registry [] nl = None"
| "scan_registry ((key, module, hosts) # registry) nl =
     (if hosts_match hosts nl then Some key else scan_registry registry nl)"

text \<open>The normalisation of the netloc in \<open>infer_site_from_url\<close>.\<close>

definition normalize_netloc :: "string \<Rightarrow> string" where
  "normalize_netloc nl0 =
     (let nl = lower nl0;
          nl = (if CHR ''@'' \<in> set nl then after_first CHR ''@'' nl else nl);
          nl = (if startswith nl ''www.'' then drop 4 nl else nl)
      in nl)"


definition infer_site_from_url :: "(string \<Rightarrow> bool) \<Rightarrow> string \<Rightarrow> py_exception + string option" where
  "infer_site_from_url ipok url =
     (if url = [] then Inr None
      else (case urlparse ipok url of
              Inl e \<Rightarrow> Inl e
            | Inr parsed \<Rightarrow> Inr (scan_registry site_registry (normalize_netloc (netloc parsed)))))"

section \<open>Regular expressions\<close>

text \<open>
  The patterns of the site modules are sequences of one-character classes, optional and
  repeated classes (greedy or lazy), one capturing group and the word boundary.  \<open>rx\<close> is
  the backtracking matcher of \<open>re\<close> on such a sequence: alternatives are tried in the
  order of \<open>re\<close> (a greedy repetition takes a character first, a lazy one tries the rest
  first), and the first success is the match.  Its result is \<open>group(1)\<close>.
  \<open>X+\<close> is \<open>Ch X, StarG X\<close> and \<open>X+?\<close> is \<open>Ch X, StarL X\<close>.
\<close>

datatype atom =
    Ch "char \<Rightarrow> bool"
  | Opt "char \<Rightarrow> bool"
  | StarG "char \<Rightarrow> bool"
  | StarL "char \<Rightarrow> bool"
  | GOpen
  | GClose
  | WordB

text \<open>\<open>\w\<close> on the Latin-1 range: alphanumerics (also the letters, superscript digits
  and fractions above U+007F) and the underscore.\<close>

definition word_char :: "char \<Rightarrow> bool" where
  "word_char c =
     (let n = (of_char c :: nat)
      in ascii_upper c \<or> ascii_lower c \<or> ascii_digit c \<or> c = CHR ''_''
         \<or> n \<in> {170, 178, 179, 181, 185, 186, 188, 189, 190}
         \<or> (192 \<le> n \<and> n \<noteq> 215 \<and> n \<noteq> 247))"

definition is_word :: "char option \<Rightarrow> bool" where
  "is_word x = (case x of None \<Rightarrow> False | Some c \<Rightarrow> word_char c)"

definition push :: "bool \<Rightarrow> char \<Rightarrow> string \<Rightarrow> string" where
  "push recording c acc = (if recording then c # acc else acc)"

definition orelse :: "'a option \<Rightarrow> 'a option \<Rightarrow> 'a option" where
  "orelse x y = (case x of Some v \<Rightarrow> Some v | None \<Rightarrow> y)"

text \<open>\<open>rx atoms prev recording acc s\<close>: match \<open>atoms\<close> at the start of \<open>s\<close>; \<open>prev\<close> is the
  character before \<open>s\<close> in the searched text, \<open>acc\<close> the group's text so far, reversed.\<close>

fun rx :: "atom list \<Rightarrow> char option \<Rightarrow> bool \<Rightarrow> string \<Rightarrow> string \<Rightarrow> string option" where
  "rx [] prev recording acc s = Some (rev acc)"
| "rx (Ch P # r) prev recording acc [] = None"
| "rx (Ch P # r) prev recording acc (c # cs) =
     (if P c then rx r (Some c) recording (push recording c acc) cs else None)"
| "rx (Opt P # r) prev recording acc [] = rx r prev recording acc []"
| "rx (Opt P # r) prev recording acc (c # cs) =
     (if P c
      then (case rx r (Some c) recording (push recording c acc) cs of
              Some v \<Rightarrow> Some v
            | None \<Rightarrow> rx r prev recording acc (c # cs))
      else rx r prev recording acc (c # cs))"
| "rx (StarG P # r) prev recording acc [] = rx r prev recording acc []"
| "rx (StarG P # r) prev recording acc (c # cs) =
     (if P c
      then (case rx (StarG P # r) (Some c) recording (push recording c acc) cs of
              Some v \<Rightarrow> Some v
            | None \<Rightarrow> rx r prev recording acc (c # cs))
      else rx r prev recording acc (c # cs))"
| "rx (StarL P # r) prev recording acc [] = rx r prev recording acc []"
| "rx (StarL P # r) prev recording acc (c # cs) =
     (case rx r prev recording acc (c # cs) of
        Some v \<Rightarrow> Some v
      | None \<Rightarrow>
          if P c then rx (StarL P # r) (Some c) recording (push recording c acc) cs
          else None)"
| "rx (GOpen # r) prev recording acc s = rx r prev True [] s"
| "rx (GClose # r) prev recording acc s = rx r prev False acc s"
| "rx (WordB # r) prev recording acc s =
     (if is_word prev \<noteq> is_word (case s of [] \<Rightarrow> None | c # cs \<Rightarrow> Some c)
      then rx r prev recording acc s else None)"

text \<open>\<open>re.search\<close>: the match at the leftmost start position that has one (also the
  position at the end of the text); \<open>re.findall(...)[0]\<close> is the same match.\<close>

fun rx_search :: "atom list \<Rightarrow> char option \<Rightarrow> string \<Rightarrow> string option" where
  "rx_search r prev [] = rx r prev False [] []"
| "rx_search r prev (c # cs) =
     (case rx r prev False [] (c # cs) of
        Some v \<Rightarrow> Some v
      | None \<Rightarrow> rx_search r (Some c) cs)"

definition re_search :: "atom list \<Rightarrow> string \<Rightarrow> string option" where
  "re_search r s = rx_search r None s"

text \<open>Literal text, and literal text under \<open>re.IGNORECASE\<close> (on the Latin-1 range a
  lower-case ASCII letter of the pattern matches the characters that \<open>lower\<close> maps to it).\<close>

definition lit :: "string \<Rightarrow> atom list" where
  "lit s = map (\<lambda>c. Ch (\<lambda>x. x = c)) s"

definition lit_ci :: "string \<Rightarrow> atom list" where
  "lit_ci s = map (\<lambda>c. Ch (\<lambda>x. lower_char x = c)) s"

text \<open>\<open>\s\<close> on the Latin-1 range.\<close>

definition space_char :: "char \<Rightarrow> bool" where
  "space_char c =
     (let n = (of_char c :: nat)
      in (9 \<le> n \<and> n \<le> 13) \<or> (28 \<le> n \<and> n \<le> 32) \<or> n = 133 \<or> n = 160)"

definition quote_char :: "char \<Rightarrow> bool" where
  "quote_char c = (c = CHR 0x22 \<or> c = CHR 0x27)"

text \<open>\<open>[^\s'\"]\<close>\<close>

definition url_char :: "char \<Rightarrow> bool" where
  "url_char c = (\<not> space_char c \<and> \<not> quote_char c)"

text \<open>\<open>(https?://[^\s'\"]+\.mp4)\<close>: the fallback of \<open>cumslutx\<close> and \<open>simpthots\<close>.\<close>

definition re_mp4 :: "atom list" where
  "re_mp4 = [GOpen] @ lit ''http'' @ [Opt (\<lambda>x. x = CHR ''s'')] @ lit ''://''
       @ [Ch url_char, StarG url_char] @ lit ''.mp4'' @ [GClose]"

text \<open>\<open>(https?://[^\s'\"]+\.m3u8)\<close>: \<open>eroleaked\<close> and \<open>amateurdoporn\<close>.\<close>

definition re_m3u8 :: "atom list" where
  "re_m3u8 = [GOpen] @ lit ''http'' @ [Opt (\<lambda>x. x = CHR ''s'')] @ lit ''://''
       @ [Ch url_char, StarG url_char] @ lit ''.m3u8'' @ [GClose]"

text \<open>\<open>video_url:\s*'function/0/(https?://[^']+\.mp4)\b\<close>: \<open>thothub\<close>.\<close>

definition re_thothub_video_url :: "atom list" where
  "re_thothub_video_url =
     lit ''video_url:'' @ [StarG space_char] @ lit [CHR 0x27] @ lit ''function/0/''
       @ [GOpen] @ lit ''http'' @ [Opt (\<lambda>x. x = CHR ''s'')] @ lit ''://''
       @ [Ch (\<lambda>x. x \<noteq> CHR 0x27), StarG (\<lambda>x. x \<noteq> CHR 0x27)] @ lit ''.mp4''
       @ [GClose, WordB]"

text \<open>\<open>(https?://[^" ]+?\.mp4)\<close>: the fallback of \<open>thothub\<close>.\<close>

definition re_thothub_any :: "atom list" where
  "re_thothub_any =
     [GOpen] @ lit ''http'' @ [Opt (\<lambda>x. x = CHR ''s'')] @ lit ''://''
       @ [Ch (\<lambda>x. x \<noteq> CHR 0x22 \<and> x \<noteq> CHR '' ''),
          StarL (\<lambda>x. x \<noteq> CHR 0x22 \<and> x \<noteq> CHR '' '')]
       @ lit ''.mp4'' @ [GClose]"

text \<open>The body \<open>(https?://[^"\']+?\.mp4)["\']\<close> shared by the two tag patterns of
  \<open>thotfans\<close>, under \<open>re.IGNORECASE\<close>.\<close>

definition re_quoted_mp4 :: "atom list" where
  "re_quoted_mp4 =
     [Ch quote_char, GOpen] @ lit_ci ''http'' @ [Opt (\<lambda>x. lower_char x = CHR ''s'')]
       @ lit ''://'' @ [Ch (\<lambda>x. \<not> quote_char x), StarL (\<lambda>x. \<not> quote_char x)]
       @ lit_ci ''.mp4'' @ [GClose, Ch quote_char]"

text \<open>\<open><source[^>]+src=["\'](https?://[^"\']+?\.mp4)["\']\<close>\<close>

definition re_thotfans_source :: "atom list" where
  "re_thotfans_source =
     lit_ci ''<source'' @ [Ch (\<lambda>x. x \<noteq> CHR ''>''), StarG (\<lambda>x. x \<noteq> CHR ''>'')]
       @ lit_ci ''src='' @ re_quoted_mp4"

text \<open>\<open><a[^>]+href=["\'](https?://[^"\']+?\.mp4)["\']\<close>\<close>

definition re_thotfans_anchor :: "atom list" where
  "re_thotfans_anchor =
     lit_ci ''<a'' @ [Ch (\<lambda>x. x \<noteq> CHR ''>''), StarG (\<lambda>x. x \<noteq> CHR ''>'')]
       @ lit_ci ''href='' @ re_quoted_mp4"

text \<open>\<open>(https?://[^"\'" >]+?\.mp4)\<close>: the fallback of \<open>thotfans\<close>.\<close>

definition thotfans_url_char :: "char \<Rightarrow> bool" where
  "thotfans_url_char c = (\<not> quote_char c \<and> c \<noteq> CHR '' '' \<and> c \<noteq> CHR ''>'')"

definition re_thotfans_any :: "atom list" where
  "re_thotfans_any =
     [GOpen] @ lit ''http'' @ [Opt (\<lambda>x. x = CHR ''s'')] @ lit ''://''
       @ [Ch thotfans_url_char, StarL thotfans_url_char] @ lit ''.mp4'' @ [GClose]"

section \<open>Extractors\<close>

text \<open>
  \<open>BeautifulSoup(html, "html.parser")\<close> is a library outside the repository.  Its two
  queries are parameters: \<open>bs_find html name attrs\<close> is \<open>soup.find(name, attrs)\<close> and
  \<open>bs_select_one html selector\<close> is \<open>soup.select_one(selector)\<close>, each giving the
  attributes of the tag found.  A \<open>Tag\<close> is always true in a condition.
\<close>

type_synonym tag = "(string \<times> string) list"

record bs4 =
  bs_find :: "string \<Rightarrow> string \<Rightarrow> (string \<times> string) list \<Rightarrow> tag option"
  bs_select_one :: "string \<Rightarrow> string \<Rightarrow> tag option"

text \<open>\<open>t[k] if t and t.has_attr(k) else None\<close>\<close>

definition tag_attr :: "tag option \<Rightarrow> string \<Rightarrow> string option" where
  "tag_attr t k = (case t of None \<Rightarrow> None | Some attrs \<Rightarrow> map_of attrs k)"

definition influencersgonewild_extract_mp4_url :: "bs4 \<Rightarrow> string \<Rightarrow> string option" where
  "influencersgonewild_extract_mp4_url soup html =
     (case tag_attr (bs_find soup html ''source'' [(''type'', ''video/mp4'')]) ''src'' of
        Some src \<Rightarrow> Some src
      | None \<Rightarrow> None)"

definition cumslutx_extract_mp4_url :: "bs4 \<Rightarrow> string \<Rightarrow> string option" where
  "cumslutx_extract_mp4_url soup html =
     (let meta = tag_attr (bs_find soup html ''meta'' [(''itemprop'', ''contentURL'')]) ''content''
      in if meta \<noteq> None \<and> endswith (the meta) ''.mp4'' then meta
         else (case tag_attr (bs_find soup html ''source'' [(''type'', ''video/mp4'')]) ''src'' of
                 Some src \<Rightarrow> Some src
               | None \<Rightarrow> re_search re_mp4 html))"

definition simpthots_extract_mp4_url :: "bs4 \<Rightarrow> string \<Rightarrow> string option" where
  "simpthots_extract_mp4_url soup html =
     (case tag_attr (bs_find soup html ''meta'' [(''property'', ''og:video'')]) ''content'' of
        Some c \<Rightarrow> Some c
      | None \<Rightarrow>
          (case tag_attr (bs_find soup html ''meta'' [(''property'', ''og:video:secure_url'')])
                  ''content'' of
             Some c \<Rightarrow> Some c
           | None \<Rightarrow> re_search re_mp4 html))"

definition thothub_extract_mp4_url :: "string \<Rightarrow> string option" where
  "thothub_extract_mp4_url html =
     (if html = [] then None
      else (case re_search re_thothub_video_url html of
              Some u \<Rightarrow> Some u
            | None \<Rightarrow>
                (case re_search re_thothub_any html of
                   Some u \<Rightarrow> Some u
                 | None \<Rightarrow> None)))"

definition thotfans_extract_mp4_url :: "string \<Rightarrow> string option" where
  "thotfans_extract_mp4_url html =
     (if html = [] then None
      else (case re_search re_thotfans_source html of
              Some u \<Rightarrow> Some u
            | None \<Rightarrow>
                (case re_search re_thotfans_anchor html of
                   Some u \<Rightarrow> Some u
                 | None \<Rightarrow>
                     (case re_search re_thotfans_any html of
                        Some u \<Rightarrow> Some u
                      | None \<Rightarrow> None))))"

definition eroleaked_extract_iframe_src :: "bs4 \<Rightarrow> string \<Rightarrow> string option" where
  "eroleaked_extract_iframe_src soup html =
     (case tag_attr (bs_select_one soup html ''.video-player .responsive-player iframe'') ''src'' of
        Some src \<Rightarrow> Some src
      | None \<Rightarrow>
          (case tag_attr (bs_find soup html ''iframe'' []) ''src'' of
             Some src \<Rightarrow> Some src
           | None \<Rightarrow> None))"

definition eroleaked_extract_m3u8_from_html :: "string \<Rightarrow> string option" where
  "eroleaked_extract_m3u8_from_html html = re_search re_m3u8 html"

definition amateurdoporn_extract_iframe_src :: "bs4 \<Rightarrow> string \<Rightarrow> string option" where
  "amateurdoporn_extract_iframe_src soup html =
     (case tag_attr (bs_select_one soup html ''iframe'') ''src'' of
        Some src \<Rightarrow> Some src
      | None \<Rightarrow> None)"

definition amateurdoporn_extract_m3u8_from_text :: "string \<Rightarrow> string option" where
  "amateurdoporn_extract_m3u8_from_text text = re_search re_m3u8 text"

section \<open>The outside world\<close>

text \<open>
  What a run does to the outside world is a list of events, in the order in which they
  happen; what the outside world answers is the environment \<open>env\<close>.  A computation
  returns its result (or the exception it raises) together with the events it caused.
  Printing to the terminal is not modelled.
\<close>

type_synonym headers = "(string \<times> string) list"

datatype event =
    HttpGet string headers
  | HttpStream string headers
  | Run "string list"
  | Mkdir string
  | Write string string

type_synonym 'a io = "(py_exception + 'a) \<times> event list"

definition ret :: "'a \<Rightarrow> 'a io" where
  "ret x = (Inr x, [])"

definition raise :: "py_exception \<Rightarrow> 'a io" where
  "raise e = (Inl e, [])"

definition lift :: "py_exception + 'a \<Rightarrow> 'a io" where
  "lift r = (r, [])"

definition bind :: "'a io \<Rightarrow> ('a \<Rightarrow> 'b io) \<Rightarrow> 'b io" where
  "bind m f =
     (case m of
        (Inl e, t) \<Rightarrow> (Inl e, t)
      | (Inr x, t) \<Rightarrow> (case f x of (r, t') \<Rightarrow> (r, t @ t')))"

record env =
  ip_ok :: "string \<Rightarrow> bool"
  soup :: bs4
  urljoin :: "string \<Rightarrow> string \<Rightarrow> string"
  http_get :: "string \<Rightarrow> headers \<Rightarrow> py_exception + string"
  http_stream :: "string \<Rightarrow> headers \<Rightarrow> py_exception + string list"
  run :: "string list \<Rightarrow> py_exception + int"
  which :: "string \<Rightarrow> string option"
  getcwd :: string
  randrange :: "nat \<Rightarrow> nat \<Rightarrow> nat"
  path_exists :: "string \<Rightarrow> bool"
  mkdir :: "string \<Rightarrow> py_exception option"
  open_wb :: "string \<Rightarrow> py_exception option"

text \<open>\<open>requests.get(url, headers=headers, timeout=15)\<close>, \<open>raise_for_status()\<close>, \<open>.text\<close>\<close>

definition requests_get :: "env \<Rightarrow> string \<Rightarrow> headers \<Rightarrow> string io" where
  "requests_get e url hs = (http_get e url hs, [HttpGet url hs])"

text \<open>\<open>subprocess.run(cmd).returncode\<close>\<close>

definition subprocess_run :: "env \<Rightarrow> string list \<Rightarrow> int io" where
  "subprocess_run e cmd = (run e cmd, [Run cmd])"

text \<open>\<open>d.mkdir(parents=True, exist_ok=True)\<close>\<close>

definition do_mkdir :: "env \<Rightarrow> string \<Rightarrow> unit io" where
  "do_mkdir e d = ((case mkdir e d of None \<Rightarrow> Inr () | Some x \<Rightarrow> Inl x), [Mkdir d])"

text \<open>The streaming download of \<open>thothub\<close> and \<open>thotfans\<close>: the request and
  \<open>raise_for_status()\<close>, then \<open>open(out_file, "wb")\<close> and the non-empty chunks written.\<close>

definition stream_to_file :: "env \<Rightarrow> string \<Rightarrow> headers \<Rightarrow> string \<Rightarrow> unit io" where
  "stream_to_file e url hs out_file =
     (case http_stream e url hs of
        Inl x \<Rightarrow> (Inl x, [HttpStream url hs])
      | Inr chunks \<Rightarrow>
          (case open_wb e out_file of
             Some x \<Rightarrow> (Inl x, [HttpStream url hs])
           | None \<Rightarrow>
               (Inr (), [HttpStream url hs,
                         Write out_file (concat (filter (\<lambda>chunk. chunk \<noteq> []) chunks))])))"

text \<open>\<open>not x\<close> for an optional string: \<open>None\<close> and the empty string are false.\<close>

definition falsy :: "string option \<Rightarrow> bool" where
  "falsy x = (case x of None \<Rightarrow> True | Some s \<Rightarrow> s = [])"

subsection \<open>Paths\<close>

text \<open>A \<open>PurePosixPath\<close> is its root and its components.\<close>

type_synonym ppath = "string \<times> string list"

definition path_root :: "string \<Rightarrow> string" where
  "path_root s =
     (if take 2 s = ''//'' \<and> take 3 s \<noteq> ''///'' then ''//''
      else if take 1 s = ''/'' then ''/'' else [])"

definition Path :: "string \<Rightarrow> ppath" where
  "Path s = (path_root s, path_parts s)"

fun join_slash :: "string list \<Rightarrow> string" where
  "join_slash [] = []"
| "join_slash [p] = p"
| "join_slash (p # q # ps) = p @ ''/'' @ join_slash (q # ps)"

definition path_str :: "ppath \<Rightarrow> string" where
  "path_str p = (if fst p = [] \<and> snd p = [] then ''.'' else fst p @ join_slash (snd p))"

definition path_parent :: "ppath \<Rightarrow> ppath" where
  "path_parent p = (fst p, butlast (snd p))"

text \<open>\<open>p / name\<close>\<close>

definition path_div :: "ppath \<Rightarrow> string \<Rightarrow> ppath" where
  "path_div p name =
     (if path_root name \<noteq> [] then Path name else (fst p, snd p @ path_parts name))"

subsection \<open>Decimal numerals\<close>

fun str_nat :: "nat \<Rightarrow> string" where
  "str_nat n =
     (if n < 10 then [char_of (48 + n)]
      else str_nat (n div 10) @ [char_of (48 + n mod 10)])"

section \<open>Site modules\<close>

definition UA_141 :: string where
  "UA_141 = ''Mozilla/5.0 (Windows NT 10.0; Win64; x64) ''
     @ ''AppleWebKit/537.36 (KHTML, like Gecko) ''
     @ ''Chrome/141.0.0.0 Safari/537.36''"

definition UA_114 :: string where
  "UA_114 = ''Mozilla/5.0 (Windows NT 10.0; Win64; x64) ''
     @ ''AppleWebKit/537.36 (KHTML, like Gecko) ''
     @ ''Chrome/114.0.0.0 Safari/537.36''"

definition UA_91 :: string where
  "UA_91 = ''Mozilla/5.0 (Windows NT 10.0; Win64; x64) ''
     @ ''AppleWebKit/537.36 (KHTML, like Gecko) ''
     @ ''Chrome/91.0.4472.124 Safari/537.36''"

definition CRLF :: string where
  "CRLF = [CHR 0x0D, CHR 0x0A]"

subsection \<open>\<open>sites/influencersgonewild.py\<close>\<close>

definition influencersgonewild_REFERER :: string where
  "influencersgonewild_REFERER = ''https://influencersgonewild.com/''"

definition influencersgonewild_fetch_page :: "env \<Rightarrow> string \<Rightarrow> string io" where
  "influencersgonewild_fetch_page e url =
     requests_get e url [(''User-Agent'', UA_91), (''Referer'', influencersgonewild_REFERER)]"

definition influencersgonewild_download :: "env \<Rightarrow> string option \<Rightarrow> string option \<Rightarrow> int io" where
  "influencersgonewild_download e mp4_url out_path =
     (if falsy mp4_url then raise ValueError
      else
        (let cmd = [''wget'', ''--user-agent'', UA_91, ''--referer'', influencersgonewild_REFERER]
         in bind
              (if \<not> falsy out_path
               then (let out_dir = path_str (path_parent (Path (the out_path)))
                     in bind (if \<not> path_exists e out_dir then do_mkdir e out_dir else ret ())
                          (\<lambda>_. ret (cmd @ [''-O'', the out_path])))
               else ret cmd)
              (\<lambda>cmd. subprocess_run e (cmd @ [the mp4_url]))))"

subsection \<open>\<open>sites/cumslutx.py\<close>\<close>

definition cumslutx_fetch_page :: "env \<Rightarrow> string \<Rightarrow> string io" where
  "cumslutx_fetch_page e url =
     requests_get e url [(''User-Agent'', UA_141), (''Referer'', url)]"

definition cumslutx_download :: "env \<Rightarrow> string option \<Rightarrow> string option \<Rightarrow> int io" where
  "cumslutx_download e mp4_url out_path =
     (if falsy mp4_url then raise ValueError
      else bind
             (case out_path of
                None \<Rightarrow> lift (cumslutx_derive_filename_from_url (ip_ok e) (the mp4_url))
              | Some p \<Rightarrow> ret p)
             (\<lambda>out_path. subprocess_run e
                [''curl'', ''-L'', ''--fail'', ''--output'', out_path, ''--user-agent'', UA_141,
                 ''--referer'', ''https://cumslutx.com/'', the mp4_url]))"

definition cumslutx_full_download_from_page :: "env \<Rightarrow> string \<Rightarrow> string option \<Rightarrow> int io" where
  "cumslutx_full_download_from_page e url out_path =
     bind (cumslutx_fetch_page e url) (\<lambda>html.
       (let mp4 = cumslutx_extract_mp4_url (soup e) html
        in if falsy mp4 then raise RuntimeError
           else bind
                  (case out_path of
                     None \<Rightarrow> lift (cumslutx_derive_filename_from_url (ip_ok e) url)
                   | Some p \<Rightarrow> ret p)
                  (\<lambda>out_path. cumslutx_download e mp4 (Some out_path))))"

subsection \<open>\<open>sites/simpthots.py\<close>\<close>

definition simpthots_REFERER :: string where
  "simpthots_REFERER = ''https://simpthots.com/''"

definition simpthots_fetch_page :: "env \<Rightarrow> string \<Rightarrow> string io" where
  "simpthots_fetch_page e url =
     requests_get e url [(''User-Agent'', UA_141), (''Referer'', url)]"

definition simpthots_download :: "env \<Rightarrow> string option \<Rightarrow> string option \<Rightarrow> int io" where
  "simpthots_download e mp4_url out_path =
     (if falsy mp4_url then raise ValueError
      else bind
             (case out_path of
                None \<Rightarrow> lift (simpthots_derive_filename_from_url (ip_ok e) (the mp4_url))
              | Some p \<Rightarrow> ret p)
             (\<lambda>out_path. subprocess_run e
                [''curl'', ''-L'', ''--fail'', ''--output'', out_path, ''--user-agent'', UA_141,
                 ''--referer'', simpthots_REFERER, the mp4_url]))"

definition simpthots_full_download_from_page :: "env \<Rightarrow> string \<Rightarrow> string option \<Rightarrow> int io" where
  "simpthots_full_download_from_page e url out_path =
     bind (simpthots_fetch_page e url) (\<lambda>html.
       (let mp4 = simpthots_extract_mp4_url (soup e) html
        in if falsy mp4 then raise RuntimeError
           else bind
                  (case out_path of
                     None \<Rightarrow> lift (simpthots_derive_filename_from_url (ip_ok e) url)
                   | Some p \<Rightarrow> ret p)
                  (\<lambda>out_path. simpthots_download e mp4 (Some out_path))))"

subsection \<open>\<open>sites/eroleaked.py\<close>\<close>

definition eroleaked_REFERER :: string where
  "eroleaked_REFERER = ''https://eroleaked.com/''"

definition eroleaked_fetch_page :: "env \<Rightarrow> string \<Rightarrow> string io" where
  "eroleaked_fetch_page e url =
     requests_get e url [(''User-Agent'', UA_141), (''Referer'', eroleaked_REFERER)]"

definition eroleaked_ffmpeg_headers :: string where
  "eroleaked_ffmpeg_headers =
     ''sec-ch-ua-platform: '' @ [CHR 0x22] @ ''Windows'' @ [CHR 0x22] @ CRLF
     @ ''Referer: '' @ eroleaked_REFERER @ CRLF
     @ ''User-Agent: '' @ UA_141 @ CRLF
     @ ''sec-ch-ua: '' @ [CHR 0x22] @ ''Google Chrome'' @ [CHR 0x22] @ '';v='' @ [CHR 0x22]
     @ ''141'' @ [CHR 0x22] @ '', '' @ [CHR 0x22] @ ''Not?A_Brand'' @ [CHR 0x22] @ '';v=''
     @ [CHR 0x22] @ ''8'' @ [CHR 0x22] @ '', '' @ [CHR 0x22] @ ''Chromium'' @ [CHR 0x22]
     @ '';v='' @ [CHR 0x22] @ ''141'' @ [CHR 0x22] @ CRLF
     @ ''sec-ch-ua-mobile: ?0'' @ CRLF"

definition eroleaked_download :: "env \<Rightarrow> string option \<Rightarrow> string option \<Rightarrow> int io" where
  "eroleaked_download e m3u8_url out_path =
     (if falsy m3u8_url then raise ValueError
      else
        (let out_path = (case out_path of
                           None \<Rightarrow> eroleaked_derive_filename_from_url eroleaked_REFERER @ ''.mp4''
                         | Some p \<Rightarrow> p)
         in subprocess_run e
              [''ffmpeg'', ''-headers'', eroleaked_ffmpeg_headers, ''-i'', the m3u8_url,
               ''-c'', ''copy'', out_path]))"

definition eroleaked_full_download_from_page :: "env \<Rightarrow> string \<Rightarrow> string option \<Rightarrow> int io" where
  "eroleaked_full_download_from_page e url out_path =
     bind (eroleaked_fetch_page e url) (\<lambda>page_html.
       (let iframe_src = eroleaked_extract_iframe_src (soup e) page_html
        in if falsy iframe_src then raise RuntimeError
           else
             (let iframe_src = the iframe_src;
                  iframe_src =
                    (if startswith iframe_src ''//'' then ''https:'' @ iframe_src
                     else if startswith iframe_src ''/'' then ''https://eroleaked.com'' @ iframe_src
                     else iframe_src)
              in bind (eroleaked_fetch_page e iframe_src) (\<lambda>iframe_html.
                   (let m3u8 = eroleaked_extract_m3u8_from_html iframe_html
                    in if falsy m3u8 then raise RuntimeError
                       else
                         (let out_path =
                                (case out_path of
                                   None \<Rightarrow> eroleaked_derive_filename_from_url url @ ''.mp4''
                                 | Some p \<Rightarrow> p)
                          in eroleaked_download e m3u8 (Some out_path)))))))"

subsection \<open>\<open>sites/amateurdoporn.py\<close>\<close>

definition amateurdoporn_REFERER :: string where
  "amateurdoporn_REFERER = ''https://amateurdoporn.com/''"

definition amateurdoporn_fetch_page :: "env \<Rightarrow> string \<Rightarrow> string io" where
  "amateurdoporn_fetch_page e url =
     requests_get e url [(''User-Agent'', UA_141), (''Referer'', amateurdoporn_REFERER)]"

definition amateurdoporn_ffmpeg_headers :: string where
  "amateurdoporn_ffmpeg_headers =
     ''sec-ch-ua-platform: '' @ [CHR 0x22] @ ''Windows'' @ [CHR 0x22] @ CRLF
     @ ''Referer: '' @ amateurdoporn_REFERER @ CRLF
     @ ''User-Agent: '' @ UA_141 @ CRLF"

definition amateurdoporn_download :: "env \<Rightarrow> string option \<Rightarrow> string option \<Rightarrow> int io" where
  "amateurdoporn_download e m3u8_url out_path =
     (if falsy m3u8_url then raise ValueError
      else
        (let out_path = (case out_path of
                           None \<Rightarrow> amateurdoporn_derive_filename_from_url (the m3u8_url) @ ''.mp4''
                         | Some p \<Rightarrow> p)
         in subprocess_run e
              [''ffmpeg'', ''-headers'', amateurdoporn_ffmpeg_headers, ''-i'', the m3u8_url,
               ''-c'', ''copy'', out_path]))"

definition amateurdoporn_full_download_from_page :: "env \<Rightarrow> string \<Rightarrow> string option \<Rightarrow> int io" where
  "amateurdoporn_full_download_from_page e url out_path =
     bind (amateurdoporn_fetch_page e url) (\<lambda>page_html.
       (let m3u8 = amateurdoporn_extract_m3u8_from_text page_html
        in if \<not> falsy m3u8 then amateurdoporn_download e m3u8 out_path
           else
             (let iframe_src = amateurdoporn_extract_iframe_src (soup e) page_html
              in if \<not> falsy iframe_src
                 then (let iframe_src = urljoin e url (the iframe_src)
                       in bind (amateurdoporn_fetch_page e iframe_src) (\<lambda>iframe_html.
                            (let m3u8 = amateurdoporn_extract_m3u8_from_text iframe_html
                             in if \<not> falsy m3u8 then amateurdoporn_download e m3u8 out_path
                                else raise RuntimeError)))
                 else raise RuntimeError)))"

subsection \<open>\<open>sites/thothub.py\<close>\<close>

definition thothub_fetch_page :: "env \<Rightarrow> string \<Rightarrow> string io" where
  "thothub_fetch_page e url = requests_get e url [(''User-Agent'', UA_114)]"

text \<open>\<open>_append_random_rnd\<close>: the number drawn is the environment's answer to
  \<open>random.randrange(10**12, 10**14)\<close>.\<close>

definition thothub_append_random_rnd :: "env \<Rightarrow> string \<Rightarrow> string" where
  "thothub_append_random_rnd e url =
     (let rnd = randrange e (10 ^ 12) (10 ^ 14);
          sep = (if CHR ''?'' \<in> set url then ''&'' else ''?'')
      in url @ sep @ ''rnd='' @ str_nat rnd)"

definition thothub_download_headers :: headers where
  "thothub_download_headers =
     [(''Accept'', ''text/html,application/xhtml+xml,application/xml;q=0.9,image/avif,image/webp,image/apng,*/*;q=0.8''),
      (''Accept-Language'', ''en-US,en;q=0.9''),
      (''Cache-Control'', ''no-cache''),
      (''Connection'', ''keep-alive''),
      (''Upgrade-Insecure-Requests'', ''1''),
      (''User-Agent'', UA_114),
      (''DNT'', ''1'')]"

text \<open>The output file chosen by \<open>thothub.download\<close>.\<close>

definition thothub_out_file :: "env \<Rightarrow> string \<Rightarrow> string option \<Rightarrow> py_exception + ppath" where
  "thothub_out_file e mp4_url out_path =
     (if \<not> falsy out_path then Inr (Path (the out_path))
      else (case thothub_filename_from_url (ip_ok e) mp4_url of
              Inl x \<Rightarrow> Inl x
            | Inr filename \<Rightarrow> Inr (path_div (Path (getcwd e)) filename)))"

definition thothub_download :: "env \<Rightarrow> string option \<Rightarrow> string option \<Rightarrow> int io" where
  "thothub_download e mp4_url out_path =
     (if falsy mp4_url then raise ValueError
      else
        (let url_with_rnd = thothub_append_random_rnd e (the mp4_url)
         in bind (lift (thothub_out_file e (the mp4_url) out_path)) (\<lambda>out_file.
              bind (do_mkdir e (path_str (path_parent out_file))) (\<lambda>_.
                bind (stream_to_file e url_with_rnd thothub_download_headers (path_str out_file))
                  (\<lambda>_. ret 0)))))"

subsection \<open>\<open>sites/thotfans.py\<close>\<close>

definition thotfans_fetch_page :: "env \<Rightarrow> string \<Rightarrow> string io" where
  "thotfans_fetch_page e url = requests_get e url [(''User-Agent'', UA_114)]"

text \<open>\<open>_append_random_rnd\<close>: the number drawn is the environment's answer to
  \<open>random.randrange(10**12, 10**14)\<close>.\<close>

definition thotfans_append_random_rnd :: "env \<Rightarrow> string \<Rightarrow> string" where
  "thotfans_append_random_rnd e url =
     (let rnd = randrange e (10 ^ 12) (10 ^ 14);
          sep = (if CHR ''?'' \<in> set url then ''&'' else ''?'')
      in url @ sep @ ''rnd='' @ str_nat rnd)"

definition thotfans_download_headers :: headers where
  "thotfans_download_headers =
     [(''Accept'', ''text/html,application/xhtml+xml,application/xml;q=0.9,*/*;q=0.8''),
      (''Accept-Language'', ''en-US,en;q=0.9''),
      (''Cache-Control'', ''no-cache''),
      (''Connection'', ''keep-alive''),
      (''Upgrade-Insecure-Requests'', ''1''),
      (''User-Agent'', UA_114),
      (''DNT'', ''1'')]"

text \<open>The output file chosen by \<open>thotfans.download\<close>.\<close>

definition thotfans_out_file :: "env \<Rightarrow> string \<Rightarrow> string option \<Rightarrow> py_exception + ppath" where
  "thotfans_out_file e mp4_url out_path =
     (if \<not> falsy out_path then Inr (Path (the out_path))
      else (case thotfans_filename_from_url (ip_ok e) mp4_url of
              Inl x \<Rightarrow> Inl x
            | Inr filename \<Rightarrow> Inr (path_div (Path (getcwd e)) filename)))"

definition thotfans_download :: "env \<Rightarrow> string option \<Rightarrow> string option \<Rightarrow> int io" where
  "thotfans_download e mp4_url out_path =
     (if falsy mp4_url then raise ValueError
      else
        (let url_with_rnd = thotfans_append_random_rnd e (the mp4_url)
         in bind (lift (thotfans_out_file e (the mp4_url) out_path)) (\<lambda>out_file.
              bind (do_mkdir e (path_str (path_parent out_file))) (\<lambda>_.
                bind (stream_to_file e url_with_rnd thotfans_download_headers (path_str out_file))
                  (\<lambda>_. ret 0)))))"

subsection \<open>\<open>sites/fapnut.py\<close>\<close>

definition fapnut_fetch_page :: "env \<Rightarrow> string \<Rightarrow> string io" where
  "fapnut_fetch_page e url =
     requests_get e url [(''User-Agent'', UA_114), (''Referer'', ''https://fapnut.net/'')]"

text \<open>The output file chosen by \<open>fapnut.download\<close>.\<close>

definition fapnut_out_file ::
  "env \<Rightarrow> string \<Rightarrow> string option \<Rightarrow> string option \<Rightarrow> py_exception + ppath" where
  "fapnut_out_file e m3u8_url out_path page_url =
     (if \<not> falsy out_path then Inr (Path (the out_path))
      else if \<not> falsy page_url
      then (case fapnut_filename_from_page_url (ip_ok e) (the page_url) of
              Inl x \<Rightarrow> Inl x
            | Inr filename \<Rightarrow> Inr (path_div (Path (getcwd e)) filename))
      else (case urlparse (ip_ok e) m3u8_url of
              Inl x \<Rightarrow> Inl x
            | Inr parsed \<Rightarrow>
                (let name = path_name (path parsed);
                     name = (if name = [] then ''fapnut'' else name)
                 in Inr (path_div (Path (getcwd e)) (name @ ''.mp4'')))))"

definition fapnut_download ::
  "env \<Rightarrow> string option \<Rightarrow> string option \<Rightarrow> string option \<Rightarrow> int io" where
  "fapnut_download e m3u8_url out_path page_url =
     (if falsy m3u8_url then raise ValueError
      else if falsy (which e ''ffmpeg'') then raise RuntimeError
      else
        (let ffmpeg_path = the (which e ''ffmpeg'')
         in bind (lift (fapnut_out_file e (the m3u8_url) out_path page_url)) (\<lambda>out_file.
              bind (do_mkdir e (path_str (path_parent out_file))) (\<lambda>_.
                bind (subprocess_run e
                        [ffmpeg_path, ''-y'', ''-hide_banner'', ''-loglevel'', ''error'',
                         ''-headers'', ''Referer: https://fapnut.net/'' @ CRLF,
                         ''-i'', the m3u8_url, ''-c'', ''copy'', path_str out_file])
                  (\<lambda>returncode. if returncode \<noteq> 0 then raise RuntimeError else ret 0)))))"

section \<open>The command line (\<open>main.py\<close>)\<close>

text \<open>
  A site module, as \<open>main\<close> sees it: the attributes that it probes with \<open>hasattr\<close>, each
  present or not.  \<open>__import__\<close> is the parameter \<open>importer\<close>; \<open>repo_import\<close> is the import
  that succeeds on the modules of the repository.
\<close>

record py_module =
  m_full_download_from_page :: "(env \<Rightarrow> string \<Rightarrow> string option \<Rightarrow> int io) option"
  m_fetch_page :: "(env \<Rightarrow> string \<Rightarrow> string io) option"
  m_extract_mp4_url :: "(env \<Rightarrow> string \<Rightarrow> string option io) option"
  m_extract_iframe_src :: "(env \<Rightarrow> string \<Rightarrow> string option io) option"
  m_extract_m3u8_from_html :: "(env \<Rightarrow> string \<Rightarrow> string option io) option"
  m_download :: "(env \<Rightarrow> string option \<Rightarrow> string option \<Rightarrow> int io) option"

definition influencersgonewild_module :: py_module where
  "influencersgonewild_module =
     \<lparr> m_full_download_from_page = None,
       m_fetch_page = Some influencersgonewild_fetch_page,
       m_extract_mp4_url = Some (\<lambda>e html. ret (influencersgonewild_extract_mp4_url (soup e) html)),
       m_extract_iframe_src = None,
       m_extract_m3u8_from_html = None,
       m_download = Some influencersgonewild_download \<rparr>"

definition eroleaked_module :: py_module where
  "eroleaked_module =
     \<lparr> m_full_download_from_page = Some eroleaked_full_download_from_page,
       m_fetch_page = Some eroleaked_fetch_page,
       m_extract_mp4_url = None,
       m_extract_iframe_src = Some (\<lambda>e html. ret (eroleaked_extract_iframe_src (soup e) html)),
       m_extract_m3u8_from_html = Some (\<lambda>e html. ret (eroleaked_extract_m3u8_from_html html)),
       m_download = Some eroleaked_download \<rparr>"

definition amateurdoporn_module :: py_module where
  "amateurdoporn_module =
     \<lparr> m_full_download_from_page = Some amateurdoporn_full_download_from_page,
       m_fetch_page = Some amateurdoporn_fetch_page,
       m_extract_mp4_url = None,
       m_extract_iframe_src = Some (\<lambda>e html. ret (amateurdoporn_extract_iframe_src (soup e) html)),
       m_extract_m3u8_from_html = None,
       m_download = Some amateurdoporn_download \<rparr>"

definition cumslutx_module :: py_module where
  "cumslutx_module =
     \<lparr> m_full_download_from_page = Some cumslutx_full_download_from_page,
       m_fetch_page = Some cumslutx_fetch_page,
       m_extract_mp4_url = Some (\<lambda>e html. ret (cumslutx_extract_mp4_url (soup e) html)),
       m_extract_iframe_src = None,
       m_extract_m3u8_from_html = None,
       m_download = Some cumslutx_download \<rparr>"

definition simpthots_module :: py_module where
  "simpthots_module =
     \<lparr> m_full_download_from_page = Some simpthots_full_download_from_page,
       m_fetch_page = Some simpthots_fetch_page,
       m_extract_mp4_url = Some (\<lambda>e html. ret (simpthots_extract_mp4_url (soup e) html)),
       m_extract_iframe_src = None,
       m_extract_m3u8_from_html = None,
       m_download = Some simpthots_download \<rparr>"

definition thothub_module :: py_module where
  "thothub_module =
     \<lparr> m_full_download_from_page = None,
       m_fetch_page = Some thothub_fetch_page,
       m_extract_mp4_url = Some (\<lambda>e html. ret (thothub_extract_mp4_url html)),
       m_extract_iframe_src = None,
       m_extract_m3u8_from_html = None,
       m_download = Some thothub_download \<rparr>"

definition thotfans_module :: py_module where
  "thotfans_module =
     \<lparr> m_full_download_from_page = None,
       m_fetch_page = Some thotfans_fetch_page,
       m_extract_mp4_url = Some (\<lambda>e html. ret (thotfans_extract_mp4_url html)),
       m_extract_iframe_src = None,
       m_extract_m3u8_from_html = None,
       m_download = Some thotfans_download \<rparr>"

definition repo_import :: "string \<Rightarrow> py_exception + py_module" where
  "repo_import module_path =
     (if module_path = ''super_dl.sites.influencersgonewild'' then Inr influencersgonewild_module
      else if module_path = ''super_dl.sites.eroleaked'' then Inr eroleaked_module
      else if module_path = ''super_dl.sites.amateurdoporn'' then Inr amateurdoporn_module
      else if module_path = ''super_dl.sites.cumslutx'' then Inr cumslutx_module
      else if module_path = ''super_dl.sites.simpthots'' then Inr simpthots_module
      else if module_path = ''super_dl.sites.thothub'' then Inr thothub_module
      else if module_path = ''super_dl.sites.thotfans'' then Inr thotfans_module
      else Inl ImportError)"

text \<open>The parsed command line (\<open>argparse\<close> itself is not modelled).\<close>

record args =
  arg_version :: bool
  arg_site :: "string option"
  arg_url :: "string option"
  arg_output :: "string option"

text \<open>\<open>registry.get(site_key)\<close> followed by \<open>info["module"]\<close>.\<close>

definition registry_module :: "string \<Rightarrow> string option" where
  "registry_module site_key = map_option fst (map_of site_registry site_key)"

text \<open>\<open>try: ... except Exception: return 5\<close>\<close>

definition except_return :: "int \<Rightarrow> int io \<Rightarrow> int io" where
  "except_return code m = (case m of (Inl x, t) \<Rightarrow> (Inr code, t) | (Inr v, t) \<Rightarrow> (Inr v, t))"

text \<open>The three interfaces that \<open>main\<close> tries in turn, inside its \<open>try\<close> block.\<close>

definition dispatch :: "env \<Rightarrow> py_module \<Rightarrow> args \<Rightarrow> int io" where
  "dispatch e m a =
     (case m_full_download_from_page m of
        Some full_download_from_page \<Rightarrow> full_download_from_page e (the (arg_url a)) (arg_output a)
      | None \<Rightarrow>
          (case (m_fetch_page m, m_extract_mp4_url m, m_download m) of
             (Some fetch_page, Some extract_mp4_url, Some download) \<Rightarrow>
               bind (fetch_page e (the (arg_url a))) (\<lambda>html.
                 bind (extract_mp4_url e html) (\<lambda>mp4_url.
                   if falsy mp4_url then ret 4
                   else download e mp4_url (arg_output a)))
           | _ \<Rightarrow>
               (case (m_fetch_page m, m_extract_iframe_src m, m_extract_m3u8_from_html m,
                      m_download m) of
                  (Some fetch_page, Some extract_iframe_src, Some extract_m3u8_from_html,
                   Some download) \<Rightarrow>
                    bind (fetch_page e (the (arg_url a))) (\<lambda>page_html.
                      bind (extract_iframe_src e page_html) (\<lambda>iframe_src.
                        if falsy iframe_src then ret 4
                        else
                          (let iframe_src = urljoin e (the (arg_url a)) (the iframe_src)
                           in bind (fetch_page e iframe_src) (\<lambda>iframe_html.
                                bind (extract_m3u8_from_html e iframe_html) (\<lambda>m3u8.
                                  if falsy m3u8 then ret 4
                                  else download e m3u8 (arg_output a))))))
                | _ \<Rightarrow> ret 5)))"

definition main :: "(string \<Rightarrow> py_exception + py_module) \<Rightarrow> env \<Rightarrow> args \<Rightarrow> int io" where
  "main importer e a =
     (if arg_version a then ret 0
      else if falsy (arg_url a) then ret 1
      else bind
             (if \<not> falsy (arg_site a) then ret (arg_site a)
              else lift (infer_site_from_url (ip_ok e) (the (arg_url a))))
             (\<lambda>site_key.
                if falsy site_key then ret 2
                else
                  (case registry_module (the site_key) of
                     None \<Rightarrow> ret 2
                   | Some module_path \<Rightarrow>
                       if module_path = [] then ret 2
                       else (case importer module_path of
                               Inl x \<Rightarrow> ret 3
                             | Inr m \<Rightarrow> except_return 5 (dispatch e m a)))))"

section \<open>A sample world\<close>

text \<open>
  An environment to run the model in: every page fetched has the text \<open>page\<close>, every
  query of the parsed document finds \<open>found\<close>, every external tool is installed and exits
  with \<open>code\<close>, and the file system accepts every operation.  No bracketed host is
  accepted, and \<open>urljoin\<close> is only right for a reference that is absolute already.
\<close>

definition world :: "string \<Rightarrow> tag option \<Rightarrow> int \<Rightarrow> env" where
  "world page found code =
     \<lparr> ip_ok = (\<lambda>nl. False),
       soup = \<lparr> bs_find = (\<lambda>html name attrs. found), bs_select_one = (\<lambda>html sel. found) \<rparr>,
       urljoin = (\<lambda>base ref. ref),
       http_get = (\<lambda>url hs. Inr page),
       http_stream = (\<lambda>url hs. Inr [page]),
       run = (\<lambda>cmd. Inr code),
       which = (\<lambda>tool. Some (''/usr/bin/'' @ tool)),
       getcwd = ''/tmp'',
       randrange = (\<lambda>lo hi. lo),
       path_exists = (\<lambda>p. True),
       mkdir = (\<lambda>p. None),
       open_wb = (\<lambda>p. None) \<rparr>"

text \<open>The files written by a run.\<close>

fun written_files :: "event list \<Rightarrow> string list" where
  "written_files [] = []"
| "written_files (Write p d # evs) = p # written_files evs"
| "written_files (ev # evs) = written_files evs"

text \<open>The pages requested by a run.\<close>

fun fetched_urls :: "event list \<Rightarrow> string list" where
  "fetched_urls [] = []"
| "fetched_urls (HttpGet u hs # evs) = u # fetched_urls evs"
| "fetched_urls (ev # evs) = fetched_urls evs"

section \<open>Verification\<close>

subsection \<open>Strings and URLs\<close>

lemma before_first_absent: "c \<notin> set s \<Longrightarrow> before_first c s = s"
  by (induction s) (auto simp: before_first_def)

lemma before_first_append: "c \<notin> set p \<Longrightarrow> before_first c (p @ x) = p @ before_first c x"
  by (induction p) (auto simp: before_first_def)













lemma lower_https: "lower ''https'' = ''https''"
  by code_simp

lemma dropWhile_c0_https: "dropWhile c0_control_or_space (''https://'' @ x) = ''https://'' @ x"
    by (simp add: c0_control_or_space_def)


lemma split_scheme_https: "split_scheme (''https://'' @ x) = (''https'', ''//'' @ x)"
  by (simp add: split_scheme_def before_first_def after_first_def lower_https
      ascii_lower_def scheme_char_def)


lemma takeWhile_host:
  assumes "list_all (\<lambda>c. \<not> P c) host" "rest = [] \<or> P (hd rest)"
  shows "takeWhile (\<lambda>c. \<not> P c) (host @ rest) = host"
    and "dropWhile (\<lambda>c. \<not> P c) (host @ rest) = rest"
proof -
  show "takeWhile (\<lambda>c. \<not> P c) (host @ rest) = host"
    using assms by (induction host) (cases rest, auto)
  show "dropWhile (\<lambda>c. \<not> P c) (host @ rest) = rest"
    using assms by (induction host) (cases rest, auto)
qed

lemma filter_unsafe_https:
  assumes safe: "list_all (\<lambda>c. \<not> unsafe_url_byte c) (host @ p @ qs)"
  shows "filter (\<lambda>c. \<not> unsafe_url_byte c) (''https://'' @ host @ p @ qs) = ''https://'' @ host @ p @ qs"
    using safe by (simp add: unsafe_url_byte_def list_all_iff)


lemma splitnetloc_https:
  assumes host: "list_all (\<lambda>c. c \<notin> set ''/?#[]'') host"
    and p: "p = [] \<or> hd p = CHR ''/''" "list_all (\<lambda>c. c \<notin> set ''?#'') p"
    and qs: "qs = [] \<or> hd qs = CHR ''?''"
  shows "splitnetloc (''//'' @ host @ p @ qs) = (host, p @ qs)"
proof -
  have hd: "list_all (\<lambda>c. \<not> netloc_delim c) host"
    using host by (simp add: list_all_iff netloc_delim_def)
  have rest: "p @ qs = [] \<or> netloc_delim (hd (p @ qs))"
    using p(1) qs by (cases p; cases qs) (auto simp: netloc_delim_def)
  show 3: "splitnetloc (''//'' @ host @ p @ qs) = (host, p @ qs)"
    using takeWhile_host [OF hd rest] by (simp add: splitnetloc_def)
qed

lemma path_before_query:
  assumes p: "list_all (\<lambda>c. c \<notin> set ''?#'') p"
    and qs: "qs = [] \<or> hd qs = CHR ''?''"
  shows "before_first CHR ''?'' (before_first CHR ''#'' (p @ qs)) = p"
proof -
  have np: "CHR ''#'' \<notin> set p" "CHR ''?'' \<notin> set p"
    using p by (auto simp: list_all_iff)
  show ?thesis
  proof (cases qs)
    case Nil
    then show ?thesis using np by (simp add: before_first_absent)
  next
    case (Cons c cs)
    then have "c = CHR ''?''" using qs by simp
    then show ?thesis using np Cons
      by (simp add: before_first_append before_first_absent)
         (simp add: before_first_def)
  qed
qed


lemma split_pair_if:
  "(case (if c \<in> set u then (before_first c u, after_first c u) else (u, [])) of
      (a, b) \<Rightarrow> f a b)
   = f (before_first c u) (if c \<in> set u then after_first c u else [])"
  by (simp add: before_first_absent)

lemma urlsplit_https:
  assumes host: "list_all (\<lambda>c. c \<notin> set ''/?#[]'') host"
    and p: "p = [] \<or> hd p = CHR ''/''" "list_all (\<lambda>c. c \<notin> set ''?#'') p"
    and qs: "qs = [] \<or> hd qs = CHR ''?''"
    and safe: "list_all (\<lambda>c. \<not> unsafe_url_byte c) (host @ p @ qs)"
  shows "\<exists>r. urlsplit ipok (''https://'' @ host @ p @ qs) = Inr r
           \<and> scheme r = ''https'' \<and> netloc r = host \<and> path r = p"
proof -
  have 4: "CHR ''['' \<notin> set host" "CHR '']'' \<notin> set host"
    using host by (auto simp: list_all_iff)
  show ?thesis
    apply (simp only: urlsplit_def Let_def dropWhile_c0_https filter_unsafe_https[OF safe] split_scheme_https prod.case
        split_pair_if)
    apply (simp add: splitnetloc_https [OF host p qs, simplified] 4 path_before_query [OF p(2) qs] del: set_append)
    done
qed

lemma urlparse_https:
  assumes host: "list_all (\<lambda>c. c \<notin> set ''/?#[]'') host"
    and p: "p = [] \<or> hd p = CHR ''/''" "list_all (\<lambda>c. c \<notin> set ''?#;'') p"
    and qs: "qs = [] \<or> hd qs = CHR ''?''"
    and safe: "list_all (\<lambda>c. \<not> unsafe_url_byte c) (host @ p @ qs)"
  shows "\<exists>r. urlparse ipok (''https://'' @ host @ p @ qs) = Inr r
           \<and> scheme r = ''https'' \<and> netloc r = host \<and> path r = p"
proof -
  have p': "list_all (\<lambda>c. c \<notin> set ''?#'') p" and semi: "CHR '';'' \<notin> set p"
    using p(2) by (auto simp: list_all_iff)
  obtain r where r: "urlsplit ipok (''https://'' @ host @ p @ qs) = Inr r"
      "scheme r = ''https''" "netloc r = host" "path r = p"
    using urlsplit_https [OF host p(1) p' qs safe] by blast
  show ?thesis
    using r semi by (simp add: urlparse_def)
qed


lemma lower_mp4: "lower ''.mp4'' = ''.mp4''"
  by code_simp

lemma endswith_append: "endswith (x @ p) p"
  by (simp add: endswith_def)

lemma lower_append: "lower (x @ y) = lower x @ lower y"
  by (simp add: lower_def)

lemma mp4_extension:
  "endswith (lower (if \<not> endswith (lower n) ''.mp4'' then n @ ''.mp4'' else n)) ''.mp4''"
  using endswith_append [of "lower n" "''.mp4''"]
  by (simp add: lower_append lower_mp4 del: append.simps)


















subsection \<open>Events and sample evaluations\<close>

lemma written_files_append: "written_files (xs @ ys) = written_files xs @ written_files ys"
  by (induction xs rule: written_files.induct) simp_all

lemma fetched_urls_append: "fetched_urls (xs @ ys) = fetched_urls xs @ fetched_urls ys"
  by (induction xs rule: fetched_urls.induct) simp_all

lemma infer_eroleaked_clip:
  "infer_site_from_url ipok ''https://eroleaked.com/2025/08/18/clip/'' = Inr (Some ''eroleaked'')"
  by code_simp

lemma infer_thothub_clip:
  "infer_site_from_url ipok ''https://thothub.to/videos/1/clip/'' = Inr (Some ''thothub'')"
  by code_simp

lemma registry_module_eroleaked:
  "registry_module ''eroleaked'' = Some ''super_dl.sites.eroleaked''"
  by code_simp

lemma registry_module_thothub:
  "registry_module ''thothub'' = Some ''super_dl.sites.thothub''"
  by code_simp

lemma repo_import_eroleaked: "repo_import ''super_dl.sites.eroleaked'' = Inr eroleaked_module"
  by (simp add: repo_import_def)

lemma repo_import_thothub: "repo_import ''super_dl.sites.thothub'' = Inr thothub_module"
  by (simp add: repo_import_def)

lemma thothub_removed_page:
  "thothub_extract_mp4_url ''<html><body><p>removed</p></body></html>'' = None"
  by code_simp

lemma eroleaked_no_iframe:
  "fst (eroleaked_full_download_from_page (world page None code) u out) = Inl RuntimeError"
  by (simp add: eroleaked_full_download_from_page_def eroleaked_fetch_page_def requests_get_def
      world_def bind_def eroleaked_extract_iframe_src_def tag_attr_def falsy_def raise_def)

subsection \<open>Classification of a URL\<close>




























subsection \<open>The regular-expression matcher\<close>

lemma rx_Ch_Some:
  assumes "rx (Ch P # r) pv rec acc s = Some v"
  obtains c cs where "s = c # cs" "P c" "rx r (Some c) rec (push rec c acc) cs = Some v"
  using assms by (cases s) (auto split: if_splits)

lemma rx_lit_Some:
  assumes "rx (lit p @ r) pv rec acc s = Some v"
  shows "startswith s p"
  using assms
proof (induction p arbitrary: s pv acc)
  case Nil
  then show ?case by (simp add: startswith_def)
next
  case (Cons a p)
  from Cons.prems obtain c cs where c: "s = c # cs" "c = a"
      "rx (lit p @ r) (Some c) rec (push rec c acc) cs = Some v"
    by (auto simp: lit_def elim!: rx_Ch_Some)
  have "startswith cs p" using Cons.IH [OF c(3) [unfolded lit_def, folded lit_def]] .
  then show ?case using c by (simp add: startswith_def)
qed

lemma starG_stop:
  assumes "ys = [] \<or> \<not> P (hd ys)"
  shows "rx (StarG P # r) pv rec acc ys = rx r pv rec acc ys"
  using assms by (cases ys) auto

lemma starG_consume:
  assumes "list_all P xs"
    and "rx (StarG P # r) (if xs = [] then pv else Some (last xs)) rec
           (if rec then rev xs @ acc else acc) zs = Some v"
  shows "rx (StarG P # r) pv rec acc (xs @ zs) = Some v"
  using assms
proof (induction xs arbitrary: pv acc)
  case Nil
  then show ?case by (cases rec) simp_all
next
  case (Cons x xs)
  have "rx (StarG P # r) (Some x) rec (push rec x acc) (xs @ zs) = Some v"
    using Cons.prems by (intro Cons.IH) (cases rec; auto simp: push_def)+
  then show ?case using Cons.prems by simp
qed

lemma starG_none:
  assumes "list_all P xs"
    and "\<And>t pv' acc'. suffix t xs \<Longrightarrow> rx r pv' rec acc' (t @ ys) = None"
    and "ys = [] \<or> \<not> P (hd ys)"
  shows "rx (StarG P # r) pv rec acc (xs @ ys) = None"
  using assms
proof (induction xs arbitrary: pv acc)
  case Nil
  then show ?case using starG_stop [of ys P r pv rec acc] by simp
next
  case (Cons x xs)
  have a: "rx (StarG P # r) (Some x) rec (push rec x acc) (xs @ ys) = None"
    using Cons.prems by (intro Cons.IH) (auto simp: suffix_Cons)
  have b: "rx r pv rec acc ((x # xs) @ ys) = None"
    using Cons.prems(2) [of "x # xs"] by simp
  show ?case using a b by simp
qed

lemma url_char_mp4:
  "url_char CHR ''.''" "url_char CHR ''m''" "url_char CHR ''p''" "url_char CHR ''4''"
  by code_simp+

lemma mp4_tail_none:
  assumes "post = [] \<or> \<not> url_char (hd post)"
  shows "rx (StarG url_char # lit ''.mp4'' @ [GClose]) pv rec acc (''mp4'' @ post) = None"
proof (rule starG_none [where xs = "''mp4''"])
  show "list_all url_char ''mp4''" by (simp add: url_char_mp4)
  show "post = [] \<or> \<not> url_char (hd post)" by (rule assms)
  fix t :: string and pv' acc'
  assume "suffix t ''mp4''"
  then have "t \<in> {''mp4'', ''p4'', ''4'', []}"
    by (auto simp: suffix_Cons)
  then show "rx (lit ''.mp4'' @ [GClose]) pv' rec acc' (t @ post) = None"
    using assms url_char_mp4(1) by (cases post) (auto simp: lit_def)
qed

lemma mp4_tail:
  assumes "post = [] \<or> \<not> url_char (hd post)"
  shows "rx (StarG url_char # lit ''.mp4'' @ [GClose]) pv True acc (''.mp4'' @ post)
         = Some (rev acc @ ''.mp4'')"
  using mp4_tail_none [OF assms, of "Some CHR ''.''" True "CHR ''.'' # acc"]
  by (simp add: url_char_mp4 push_def lit_def)

lemma mp4_body:
  assumes "body \<noteq> []" "list_all url_char body" "post = [] \<or> \<not> url_char (hd post)"
  shows "rx ([Ch url_char, StarG url_char] @ lit ''.mp4'' @ [GClose]) pv True acc
           (body @ ''.mp4'' @ post) = Some (rev acc @ body @ ''.mp4'')"
proof -
  obtain b bs where b: "body = b # bs" using assms(1) by (cases body) auto
  have "rx (StarG url_char # lit ''.mp4'' @ [GClose]) (Some b) True (b # acc)
          (bs @ ''.mp4'' @ post) = Some (rev acc @ body @ ''.mp4'')"
  proof (rule starG_consume)
    show "list_all url_char bs" using assms(2) b by simp
    show "rx (StarG url_char # lit ''.mp4'' @ [GClose]) (if bs = [] then Some b else Some (last bs))
            True (if True then rev bs @ b # acc else b # acc) (''.mp4'' @ post)
          = Some (rev acc @ body @ ''.mp4'')"
      using mp4_tail [OF assms(3), of "if bs = [] then Some b else Some (last bs)" "rev bs @ b # acc"] b
      by simp
  qed
  then show ?thesis using assms(2) b by (simp add: push_def)
qed

lemma re_mp4_match:
  assumes "sch = ''http://'' \<or> sch = ''https://''"
    and "body \<noteq> []" "list_all url_char body" "post = [] \<or> \<not> url_char (hd post)"
  shows "rx re_mp4 pv False [] (sch @ body @ ''.mp4'' @ post) = Some (sch @ body @ ''.mp4'')"
proof -
  have b: "rx ([Ch url_char, StarG url_char] @ lit ''.mp4'' @ [GClose]) pv' True acc
           (body @ ''.mp4'' @ post) = Some (rev acc @ body @ ''.mp4'')" for pv' acc
    by (rule mp4_body [OF assms(2,3,4)])
  show ?thesis
    using assms(1)
  proof
    assume "sch = ''http://''"
    then show ?thesis
      using b [of "Some CHR ''/''" "rev ''http://''"] assms(2)
      by (cases body) (simp_all add: re_mp4_def lit_def push_def)
  next
    assume "sch = ''https://''"
    then show ?thesis
      using b [of "Some CHR ''/''" "rev ''https://''"] assms(2)
      by (cases body) (simp_all add: re_mp4_def lit_def push_def)
  qed
qed

lemma re_mp4_prefix:
  assumes "rx re_mp4 pv False [] s = Some v"
  shows "startswith s ''http''"
proof -
  have "rx (lit ''http'' @ ([Opt (\<lambda>x. x = CHR ''s'')] @ lit ''://''
       @ [Ch url_char, StarG url_char] @ lit ''.mp4'' @ [GClose])) pv True [] s = Some v"
    using assms by (simp add: re_mp4_def)
  then show ?thesis by (rule rx_lit_Some)
qed

lemma rx_search_skip:
  assumes "\<And>i pv'. i < length pre \<Longrightarrow> rx r pv' False [] (drop i (pre @ rest)) = None"
    and "\<And>pv'. rx r pv' False [] rest = Some v"
  shows "rx_search r pv (pre @ rest) = Some v"
  using assms
proof (induction pre arbitrary: pv)
  case Nil
  then show ?case by (cases rest) simp_all
next
  case (Cons c pre)
  have 0: "rx r pv False [] ((c # pre) @ rest) = None"
    using Cons.prems(1) [of 0 pv] by simp
  have "rx_search r (Some c) (pre @ rest) = Some v"
  proof (rule Cons.IH)
    fix i pv' assume "i < length pre"
    then show "rx r pv' False [] (drop i (pre @ rest)) = None"
      using Cons.prems(1) [of "Suc i" pv'] by simp
  qed (rule Cons.prems(2))
  then show ?case using 0 by simp
qed

lemma re_search_mp4:
  assumes "sch = ''http://'' \<or> sch = ''https://''"
    and "body \<noteq> []" "list_all url_char body" "post = [] \<or> \<not> url_char (hd post)"
    and "\<forall>i<length pre. \<not> startswith (drop i (pre @ sch @ body @ ''.mp4'' @ post)) ''http''"
  shows "re_search re_mp4 (pre @ sch @ body @ ''.mp4'' @ post) = Some (sch @ body @ ''.mp4'')"
  unfolding re_search_def
proof (rule rx_search_skip)
  fix i pv' assume i: "i < length pre"
  show "rx re_mp4 pv' False [] (drop i (pre @ sch @ body @ ''.mp4'' @ post)) = None"
  proof (cases "rx re_mp4 pv' False [] (drop i (pre @ sch @ body @ ''.mp4'' @ post))")
    case None
    then show ?thesis .
  next
    case (Some v)
    then show ?thesis using re_mp4_prefix [OF Some] assms(5) i by blast
  qed
next
  fix pv'
  show "rx re_mp4 pv' False [] (sch @ body @ ''.mp4'' @ post) = Some (sch @ body @ ''.mp4'')"
    by (rule re_mp4_match [OF assms(1-4)])
qed

lemma rx_prev_irrelevant:
  "WordB \<notin> set atoms \<Longrightarrow> rx atoms pv rec acc s = rx atoms None rec acc s"
proof (induction atoms pv rec acc s rule: rx.induct)
  case (1 prev recording acc s)
  then show ?case by simp
next
  case (2 P r prev recording acc)
  then show ?case by simp
next
  case (3 P r prev recording acc c cs)
  then show ?case by simp
next
  case (4 P r prev recording acc)
  then show ?case by simp
next
  case (5 P r prev recording acc c cs)
  then show ?case by (auto split: option.splits)
next
  case (6 P r prev recording acc)
  then show ?case by simp
next
  case (7 P r prev recording acc c cs)
  then show ?case by (auto split: option.splits)
next
  case (8 P r prev recording acc)
  then show ?case by simp
next
  case (9 P r prev recording acc c cs)
  then show ?case by (auto split: option.splits)
next
  case (10 r prev recording acc s)
  then show ?case by simp
next
  case (11 r prev recording acc s)
  then show ?case by simp
next
  case (12 r prev recording acc s)
  then show ?case by simp
qed





lemma starL_elim:
  assumes "WordB \<notin> set r" "rx (StarL P # r) pv rec acc s = Some v"
  shows "\<exists>xs zs. s = xs @ zs \<and> list_all P xs
           \<and> rx r None rec (if rec then rev xs @ acc else acc) zs = Some v
           \<and> (\<forall>xs' zs'. s = xs' @ zs' \<and> length xs' < length xs
                \<longrightarrow> rx r None rec (if rec then rev xs' @ acc else acc) zs' = None)"
  using assms(2)
proof (induction s arbitrary: pv acc)
  case Nil
  then have "rx r None rec acc [] = Some v"
    using rx_prev_irrelevant [OF assms(1), of pv rec acc "[]"] by simp
  then show ?case by (cases rec) simp_all
next
  case (Cons c cs)
  show ?case
  proof (cases "rx r pv rec acc (c # cs)")
    case (Some w)
    then have k: "rx r None rec acc (c # cs) = Some v"
      using Cons.prems rx_prev_irrelevant [OF assms(1), of pv rec acc "c # cs"] by simp
    show ?thesis
      apply (rule exI [of _ "[]"])
      apply (rule exI [of _ "c # cs"])
      using k by (cases rec) auto
  next
    case None
    then have n: "rx r None rec acc (c # cs) = None"
      using rx_prev_irrelevant [OF assms(1), of pv rec acc "c # cs"] by simp
    have c: "P c" and w: "rx (StarL P # r) (Some c) rec (push rec c acc) cs = Some v"
      using Cons.prems None by (auto split: if_splits)
    obtain xs zs where x: "cs = xs @ zs" "list_all P xs"
        "rx r None rec (if rec then rev xs @ push rec c acc else push rec c acc) zs = Some v"
        "\<And>xs' zs'. cs = xs' @ zs' \<Longrightarrow> length xs' < length xs
           \<Longrightarrow> rx r None rec (if rec then rev xs' @ push rec c acc else push rec c acc) zs' = None"
      using Cons.IH [OF w] by blast
    have a: "rx r None rec (if rec then rev (c # xs) @ acc else acc) zs = Some v"
      using x(3) by (cases rec) (simp_all add: push_def)
    have m: "rx r None rec (if rec then rev xs' @ acc else acc) zs' = None"
      if h: "c # cs = xs' @ zs'" "length xs' < length (c # xs)" for xs' zs'
    proof (cases xs')
      case Nil
      then show ?thesis using h(1) n by (cases rec) auto
    next
      case (Cons y xs'')
      then have y: "xs' = c # xs''" "cs = xs'' @ zs'" using h(1) by auto
      have "rx r None rec (if rec then rev xs'' @ push rec c acc else push rec c acc) zs' = None"
        using h(2) y by (intro x(4)) simp_all
      then show ?thesis using y(1) by (cases rec) (simp_all add: push_def)
    qed
    show ?thesis
      apply (rule exI [of _ "c # xs"])
      apply (rule exI [of _ zs])
      using x(1,2) c a m by simp
  qed
qed





lemma rx_lit_ci_app:
  "lower a = w \<Longrightarrow> rx (lit_ci w @ r) pv rec acc (a @ b)
     = rx r (if a = [] then pv else Some (last a)) rec (if rec then rev a @ acc else acc) b"
proof (induction a arbitrary: w pv acc)
  case Nil
  then show ?case by (simp add: lit_ci_def lower_def)
next
  case (Cons x a)
  obtain w' where w: "w = lower_char x # w'" "lower a = w'"
    using Cons.prems by (auto simp: lower_def)
  have "rx (lit_ci w @ r) pv rec acc ((x # a) @ b)
      = rx (lit_ci w' @ r) (Some x) rec (push rec x acc) (a @ b)"
    using w by (simp add: lit_ci_def)
  then show ?case using Cons.IH [OF w(2), of "Some x" "push rec x acc"]
    by (cases rec) (simp_all add: push_def)
qed

lemma rx_lit_ci_elim:
  assumes "rx (lit_ci w @ r) pv rec acc s = Some v"
  shows "\<exists>a b. s = a @ b \<and> lower a = w
           \<and> rx r (if a = [] then pv else Some (last a)) rec
                (if rec then rev a @ acc else acc) b = Some v"
  using assms
proof (induction w arbitrary: pv acc s)
  case Nil
  show ?case
    apply (rule exI [of _ "[]"])
    apply (rule exI [of _ s])
    using Nil by (cases rec) (simp_all add: lit_ci_def lower_def)
next
  case (Cons x w)
  from Cons.prems obtain c cs where c: "s = c # cs" "lower_char c = x"
      "rx (lit_ci w @ r) (Some c) rec (push rec c acc) cs = Some v"
    by (auto simp: lit_ci_def elim!: rx_Ch_Some)
  obtain a b where b: "cs = a @ b" "lower a = w"
      "rx r (if a = [] then Some c else Some (last a)) rec
         (if rec then rev a @ push rec c acc else push rec c acc) b = Some v"
    using Cons.IH [OF c(3)] by blast
  show ?case
    apply (rule exI [of _ "c # a"])
    apply (rule exI [of _ b])
    using b c(1,2) by (cases rec; cases "a = []") (simp_all add: push_def lower_def)
qed



lemma contains_split:
  assumes "contains s p"
  shows "\<exists>a r. s = a @ p @ r"
  using assms
proof (induction s)
  case Nil
  then show ?case by simp
next
  case (Cons c cs)
  from Cons.prems have "startswith (c # cs) p \<or> contains cs p" by simp
  then show ?case
  proof
    assume "startswith (c # cs) p"
    then have "c # cs = [] @ p @ drop (length p) (c # cs)"
      unfolding startswith_def by (metis append_Nil append_take_drop_id)
    then show ?thesis by blast
  next
    assume "contains cs p"
    then obtain a r where "cs = a @ p @ r" using Cons.IH by blast
    then have "c # cs = (c # a) @ p @ r" by simp
    then show ?thesis by blast
  qed
qed





















subsection \<open>The fallback scan of the mp4 extractors\<close>












subsection \<open>Exit status of \<open>main\<close>\<close>

text \<open>
  Claim C1 (the exit status is 4 when no media URL or no iframe is found on the page) fails
  for the modules that expose \<open>full_download_from_page\<close>: \<open>eroleaked\<close> raises
  \<open>RuntimeError\<close> on a page without an iframe, and the \<open>except\<close> clause of \<open>main\<close> turns
  it into status 5.  The same page fetched through the classic flow of \<open>thothub\<close> gives 4.
\<close>

theorem C1_exit_status_no_iframe:
  "fst (main repo_import (world ''<html><body><p>removed</p></body></html>'' None 0)
         \<lparr> arg_version = False, arg_site = None,
           arg_url = Some ''https://eroleaked.com/2025/08/18/clip/'', arg_output = None \<rparr>) = Inr 5
   \<and> fst (main repo_import (world ''<html><body><p>removed</p></body></html>'' None 0)
         \<lparr> arg_version = False, arg_site = None,
           arg_url = Some ''https://thothub.to/videos/1/clip/'', arg_output = None \<rparr>) = Inr 4"
proof -
  have ip: "ip_ok (world p f c) = (\<lambda>nl. False)" for p f c
    by (simp add: world_def)
  have a: "fst (except_return 5 (eroleaked_full_download_from_page
              (world ''<html><body><p>removed</p></body></html>'' None 0)
              ''https://eroleaked.com/2025/08/18/clip/'' None)) = Inr 5"
    using eroleaked_no_iframe [of "''<html><body><p>removed</p></body></html>''" 0
        "''https://eroleaked.com/2025/08/18/clip/''" None]
    by (cases "eroleaked_full_download_from_page
              (world ''<html><body><p>removed</p></body></html>'' None 0)
              ''https://eroleaked.com/2025/08/18/clip/'' None") (auto simp: except_return_def)
  have b: "thothub_fetch_page (world ''<html><body><p>removed</p></body></html>'' None 0) u
            = (Inr ''<html><body><p>removed</p></body></html>'',
               [HttpGet u [(''User-Agent'', UA_114)]])" for u
    by (simp add: thothub_fetch_page_def requests_get_def world_def)
  show ?thesis
    using a
    by (simp add: main_def falsy_def ret_def lift_def bind_def ip infer_eroleaked_clip
        infer_thothub_clip registry_module_eroleaked registry_module_thothub
        repo_import_eroleaked repo_import_thothub dispatch_def eroleaked_module_def
        thothub_module_def b thothub_removed_page except_return_def)
qed

subsection \<open>Filename derivation\<close>

text \<open>
  Claim C5 (every filename derived from a URL consists of safe characters only) fails in
  \<open>thothub._filename_from_url\<close>: the last path segment is returned as it is, so the
  percent sign of \<open>my%20clip.mp4\<close> reaches the output path, while the sibling modules
  (\<open>cumslutx\<close>, \<open>simpthots\<close>, \<open>eroleaked\<close>, \<open>amateurdoporn\<close>) replace it by a dash.
\<close>

theorem C5_thothub_filename_unsanitized:
  "thothub_filename_from_url ipok ''https://cdn.example.com/videos/my%20clip.mp4''
     = Inr ''my%20clip.mp4''
   \<and> \<not> list_all safe_char ''my%20clip.mp4''
   \<and> cumslutx_derive_filename_from_url ipok ''https://cdn.example.com/videos/my%20clip.mp4''
     = Inr ''my-20clip.mp4''"
  by code_simp









subsection \<open>Resolution of the iframe address\<close>

lemma eroleaked_fetches:
  assumes "src \<noteq> []"
  shows "fetched_urls (snd (eroleaked_full_download_from_page
            (world page (Some [(''src'', src)]) code) u out))
     = [u, if startswith src ''//'' then ''https:'' @ src
           else if startswith src ''/'' then ''https://eroleaked.com'' @ src else src]"
  using assms
  by (simp add: eroleaked_full_download_from_page_def eroleaked_fetch_page_def requests_get_def
      world_def bind_def eroleaked_extract_iframe_src_def tag_attr_def falsy_def raise_def
      eroleaked_download_def subprocess_run_def Let_def fetched_urls_append
      split: option.splits)

text \<open>
  Claim C6 (a relative iframe \<open>src\<close> is resolved to an absolute URL against the page URL
  before it is fetched) fails in \<open>eroleaked.full_download_from_page\<close>: a \<open>src\<close> without
  a leading slash is requested as it is, and a \<open>src\<close> with one is put behind the fixed
  host \<open>https://eroleaked.com\<close>, not behind the host of the page.
\<close>

theorem C6_eroleaked_relative_iframe:
  "fetched_urls (snd (eroleaked_full_download_from_page
       (world page (Some [(''src'', ''embed/x'')]) code)
       ''https://www.eroleaked.com/2025/08/18/clip/'' out))
     = [''https://www.eroleaked.com/2025/08/18/clip/'', ''embed/x'']
   \<and> fetched_urls (snd (eroleaked_full_download_from_page
       (world page (Some [(''src'', ''/embed/x'')]) code)
       ''https://www.eroleaked.com/2025/08/18/clip/'' out))
     = [''https://www.eroleaked.com/2025/08/18/clip/'', ''https://eroleaked.com/embed/x'']"
  by (simp add: eroleaked_fetches startswith_def)

subsection \<open>Exit code of the stream-copy tool\<close>

lemma fapnut_out_file_sample:
  "fapnut_out_file (world [] None 1) ''https://cdn.example.com/hls/stream.m3u8'' None None
     = Inr ([CHR ''/''], [''tmp'', ''stream.m3u8.mp4''])"
  by code_simp

lemma path_parent_sample:
  "path_str (path_parent ([CHR ''/''], [''tmp'', ''stream.m3u8.mp4''])) = ''/tmp''"
  by code_simp

lemma world_ffmpeg:
  "which (world page found code) ''ffmpeg'' = Some ''/usr/bin/ffmpeg''"
  "mkdir (world page found code) = (\<lambda>p. None)"
  "run (world page found code) = (\<lambda>cmd. Inr code)"
  by (simp_all add: world_def)

text \<open>
  Claim C8, as stated (every download function for a playlist returns the tool's exit code,
  also a non-zero one), fails in \<open>fapnut.download\<close>: exit code 1 becomes a \<open>RuntimeError\<close>.
\<close>

theorem C8_fapnut_counterexample:
  "fst (fapnut_download (world [] None 1)
          (Some ''https://cdn.example.com/hls/stream.m3u8'') None None) = Inl RuntimeError"
  by (simp add: fapnut_download_def falsy_def world_ffmpeg raise_def bind_def lift_def
      fapnut_out_file_sample path_parent_sample do_mkdir_def subprocess_run_def)

text \<open>
  Claim C8, amended: for a non-empty playlist URL, \<open>eroleaked.download\<close> and
  \<open>amateurdoporn.download\<close> run the tool once and return what the run gives, exit code or
  launch failure, unchanged.  \<open>fapnut.download\<close> (with the tool found, the output file
  determined and its directory made) runs the tool once as well, returns 0 for exit code 0
  and raises \<open>RuntimeError\<close> for every other exit code.
\<close>

theorem C8_exit_code:
  assumes "\<not> falsy u"
  shows "(\<exists>cmd. eroleaked_download e u out = (run e cmd, [Run cmd]))
    \<and> (\<exists>cmd. amateurdoporn_download e u out = (run e cmd, [Run cmd]))
    \<and> (which e ''ffmpeg'' = Some ffmpeg \<and> ffmpeg \<noteq> []
         \<and> fapnut_out_file e (the u) out pg = Inr f
         \<and> mkdir e (path_str (path_parent f)) = None \<longrightarrow>
       (\<exists>cmd. fapnut_download e u out pg =
           ((case run e cmd of
               Inl x \<Rightarrow> Inl x
             | Inr code \<Rightarrow> if code \<noteq> 0 then Inl RuntimeError else Inr 0),
            [Mkdir (path_str (path_parent f)), Run cmd])))"
proof (intro conjI impI)
  show "\<exists>cmd. eroleaked_download e u out = (run e cmd, [Run cmd])"
    using assms by (simp add: eroleaked_download_def subprocess_run_def Let_def)
  show "\<exists>cmd. amateurdoporn_download e u out = (run e cmd, [Run cmd])"
    using assms by (simp add: amateurdoporn_download_def subprocess_run_def Let_def)
next
  assume a: "which e ''ffmpeg'' = Some ffmpeg \<and> ffmpeg \<noteq> []
         \<and> fapnut_out_file e (the u) out pg = Inr f
         \<and> mkdir e (path_str (path_parent f)) = None"
  let ?cmd = "[ffmpeg, ''-y'', ''-hide_banner'', ''-loglevel'', ''error'',
               ''-headers'', ''Referer: https://fapnut.net/'' @ CRLF,
               ''-i'', the u, ''-c'', ''copy'', path_str f]"
  have "fapnut_download e u out pg =
           ((case run e ?cmd of
               Inl x \<Rightarrow> Inl x
             | Inr code \<Rightarrow> if code \<noteq> 0 then Inl RuntimeError else Inr 0),
            [Mkdir (path_str (path_parent f)), Run ?cmd])"
    using assms a
    by (simp add: fapnut_download_def falsy_def bind_def lift_def do_mkdir_def subprocess_run_def
        raise_def ret_def split: sum.splits)
  then show "\<exists>cmd. fapnut_download e u out pg =
           ((case run e cmd of
               Inl x \<Rightarrow> Inl x
             | Inr code \<Rightarrow> if code \<noteq> 0 then Inl RuntimeError else Inr 0),
            [Mkdir (path_str (path_parent f)), Run cmd])"
    by blast
qed

theorem C8_exit_code_witness:
  "\<not> falsy (Some ''https://cdn.example.com/hls/stream.m3u8'')
   \<and> fst (eroleaked_download (world [] None 1)
            (Some ''https://cdn.example.com/hls/stream.m3u8'') None) = Inr 1
   \<and> fst (amateurdoporn_download (world [] None 1)
            (Some ''https://cdn.example.com/hls/stream.m3u8'') None) = Inr 1
   \<and> fst (fapnut_download (world [] None 1)
            (Some ''https://cdn.example.com/hls/stream.m3u8'') None None) = Inl RuntimeError"
proof -
  have n: "\<not> falsy (Some ''https://cdn.example.com/hls/stream.m3u8'')"
    by (simp add: falsy_def)
  have h: "which (world [] None 1) ''ffmpeg'' = Some ''/usr/bin/ffmpeg'' \<and> ''/usr/bin/ffmpeg'' \<noteq> []
     \<and> fapnut_out_file (world [] None 1) (the (Some ''https://cdn.example.com/hls/stream.m3u8''))
          None None = Inr ([CHR ''/''], [''tmp'', ''stream.m3u8.mp4''])
     \<and> mkdir (world [] None 1) (path_str (path_parent ([CHR ''/''], [''tmp'', ''stream.m3u8.mp4'']))) = None"
    by (simp add: world_ffmpeg fapnut_out_file_sample)
  show ?thesis
    using n h C8_exit_code [OF n, of "world [] None 1" None "''/usr/bin/ffmpeg''" None
        "([CHR ''/''], [''tmp'', ''stream.m3u8.mp4''])"]
    by (auto simp add: world_ffmpeg)
qed

subsection \<open>Validation of the media URL\<close>

text \<open>
  Claim C9: every site module's \<open>download\<close>, called with \<open>None\<close> or the empty string as
  media URL, raises \<open>ValueError\<close> and has caused no event by then: no request, no
  subprocess, no directory made and no file written.
\<close>

theorem C9_download_rejects_empty_url:
  assumes "falsy u"
  shows "influencersgonewild_download e u out = (Inl ValueError, [])
    \<and> cumslutx_download e u out = (Inl ValueError, [])
    \<and> simpthots_download e u out = (Inl ValueError, [])
    \<and> eroleaked_download e u out = (Inl ValueError, [])
    \<and> amateurdoporn_download e u out = (Inl ValueError, [])
    \<and> thothub_download e u out = (Inl ValueError, [])
    \<and> thotfans_download e u out = (Inl ValueError, [])
    \<and> fapnut_download e u out pg = (Inl ValueError, [])"
  using assms
  by (simp add: influencersgonewild_download_def cumslutx_download_def simpthots_download_def
      eroleaked_download_def amateurdoporn_download_def thothub_download_def
      thotfans_download_def fapnut_download_def raise_def)

theorem C9_download_rejects_empty_url_witness:
  "falsy (Some [])
   \<and> influencersgonewild_download (world [] None 0) (Some []) None = (Inl ValueError, [])
   \<and> thothub_download (world [] None 0) (Some []) None = (Inl ValueError, [])
   \<and> fapnut_download (world [] None 0) (Some []) None None = (Inl ValueError, [])"
proof -
  have a: "falsy (Some [])" by (simp add: falsy_def)
  show ?thesis
    using a C9_download_rejects_empty_url [OF a, of "world [] None 0" None None]
    by simp
qed

subsection \<open>Output file of the streaming downloaders\<close>

lemma thothub_out_file_rnd:
  "thothub_out_file (e\<lparr>randrange := r\<rparr>) u out = thothub_out_file e u out"
  by (simp add: thothub_out_file_def split: sum.splits)

lemma thotfans_out_file_rnd:
  "thotfans_out_file (e\<lparr>randrange := r\<rparr>) u out = thotfans_out_file e u out"
  by (simp add: thotfans_out_file_def split: sum.splits)

lemma written_stream:
  "written_files (snd (stream_to_file e url hs p)) \<in> {[], [p]}"
  by (simp add: stream_to_file_def split: sum.splits option.splits)

lemma thothub_download_written:
  "written_files (snd (thothub_download e (Some u) None))
     \<in> (case thothub_out_file e u None of Inl x \<Rightarrow> {[]} | Inr f \<Rightarrow> {[], [path_str f]})"
proof (cases "thothub_out_file e u None")
  case (Inl x)
  then show ?thesis
    by (simp add: thothub_download_def raise_def bind_def lift_def)
next
  case (Inr f)
  obtain r t where s: "stream_to_file e (thothub_append_random_rnd e u)
      thothub_download_headers (path_str f) = (r, t)"
    by (cases "stream_to_file e (thothub_append_random_rnd e u)
      thothub_download_headers (path_str f)")
  have "written_files t \<in> {[], [path_str f]}"
    using written_stream [of e "thothub_append_random_rnd e u" thothub_download_headers "path_str f"]
    by (simp add: s)
  then show ?thesis using Inr s
    by (auto simp add: thothub_download_def raise_def bind_def lift_def do_mkdir_def ret_def
        written_files_append Let_def split: sum.splits option.splits)
qed

lemma thotfans_download_written:
  "written_files (snd (thotfans_download e (Some u) None))
     \<in> (case thotfans_out_file e u None of Inl x \<Rightarrow> {[]} | Inr f \<Rightarrow> {[], [path_str f]})"
proof (cases "thotfans_out_file e u None")
  case (Inl x)
  then show ?thesis
    by (simp add: thotfans_download_def raise_def bind_def lift_def)
next
  case (Inr f)
  obtain r t where s: "stream_to_file e (thotfans_append_random_rnd e u)
      thotfans_download_headers (path_str f) = (r, t)"
    by (cases "stream_to_file e (thotfans_append_random_rnd e u)
      thotfans_download_headers (path_str f)")
  have "written_files t \<in> {[], [path_str f]}"
    using written_stream [of e "thotfans_append_random_rnd e u" thotfans_download_headers "path_str f"]
    by (simp add: s)
  then show ?thesis using Inr s
    by (auto simp add: thotfans_download_def raise_def bind_def lift_def do_mkdir_def ret_def
        written_files_append Let_def split: sum.splits option.splits)
qed

text \<open>
  Claim C10: with no \<open>out_path\<close>, the output file of \<open>thothub.download\<close> and of
  \<open>thotfans.download\<close> is the working directory joined with the name derived from the
  mp4 URL given; it is the same whatever number the random generator draws for the
  \<open>rnd\<close> parameter, and a run writes no file but that one.
\<close>

theorem C10_output_file_independent_of_rnd:
  "thothub_out_file (e\<lparr>randrange := r1\<rparr>) u None = thothub_out_file (e\<lparr>randrange := r2\<rparr>) u None
   \<and> thothub_out_file e u None =
       (case thothub_filename_from_url (ip_ok e) u of
          Inl x \<Rightarrow> Inl x
        | Inr filename \<Rightarrow> Inr (path_div (Path (getcwd e)) filename))
   \<and> written_files (snd (thothub_download (e\<lparr>randrange := r1\<rparr>) (Some u) None))
       \<in> (case thothub_out_file e u None of Inl x \<Rightarrow> {[]} | Inr f \<Rightarrow> {[], [path_str f]})
   \<and> thotfans_out_file (e\<lparr>randrange := r1\<rparr>) u None = thotfans_out_file (e\<lparr>randrange := r2\<rparr>) u None
   \<and> thotfans_out_file e u None =
       (case thotfans_filename_from_url (ip_ok e) u of
          Inl x \<Rightarrow> Inl x
        | Inr filename \<Rightarrow> Inr (path_div (Path (getcwd e)) filename))
   \<and> written_files (snd (thotfans_download (e\<lparr>randrange := r1\<rparr>) (Some u) None))
       \<in> (case thotfans_out_file e u None of Inl x \<Rightarrow> {[]} | Inr f \<Rightarrow> {[], [path_str f]})"
  using thothub_download_written [of "e\<lparr>randrange := r1\<rparr>" u]
    thotfans_download_written [of "e\<lparr>randrange := r1\<rparr>" u]
  by (simp add: thothub_out_file_rnd thotfans_out_file_rnd)
     (simp add: thothub_out_file_def thotfans_out_file_def falsy_def)

end
